theory Spec2Isabelle
  imports Complex_Main "HOL-Library.Multiset"
begin

section \<open>Common vocabulary: Python exceptions and warnings\<close>

text \<open>
  Every \<^verbatim>\<open>raise\<close> of the source is a value \<open>Inl e\<close> of the result type
  \<open>py_error + 'a\<close>; the argument of an exception is a short form of the source's
  message.  A call of \<^verbatim>\<open>warnings.warn\<close> appends a short form of its message to the
  list of warnings that the model returns next to the value.  Floating point numbers
  (frequencies, epochs, times, positions) are modelled as real numbers.
\<close>

datatype py_error =
    ValueError string
  | NotImplementedError string
  | AssertionError string
  | FileNotFoundError
  | FileExistsError
  | IndexError
  | TypeError
  | AttributeError
  | BroadcastError

type_synonym warning = string

section \<open>ms\_utils.py: the coordinate frame translator\<close>

type_synonym frame_tuple = "string \<times> real"

text \<open>The module-level table \<^verbatim>\<open>COORD_PYUVDATA2CASA_DICT\<close>, in insertion order.\<close>

definition COORD_PYUVDATA2CASA_DICT :: "(string \<times> frame_tuple option) list" where
  "COORD_PYUVDATA2CASA_DICT =
    [(''J2000'', Some (''fk5'', 2000)),
     (''JNAT'', None),
     (''JMEAN'', None),
     (''JTRUE'', None),
     (''APP'', Some (''gcrs'', 2000)),
     (''B1950'', Some (''fk4'', 1950)),
     (''B1950_VLA'', Some (''fk4'', 1979)),
     (''BMEAN'', None),
     (''BTRUE'', None),
     (''GALACTIC'', None),
     (''HADEC'', None),
     (''AZEL'', None),
     (''AZELSW'', None),
     (''AZELNE'', None),
     (''AZELGEO'', None),
     (''AZELSWGEO'', None),
     (''AZELNEGEO'', None),
     (''ECLIPTIC'', None),
     (''MECLIPTIC'', None),
     (''TECLIPTIC'', None),
     (''SUPERGAL'', None),
     (''ITRF'', None),
     (''TOPO'', None),
     (''ICRS'', Some (''icrs'', 2000))]"

text \<open>
  \<^verbatim>\<open>reverse_dict = {ref: key for key, ref in COORD_PYUVDATA2CASA_DICT.items()}\<close>:
  the comprehension stores the pairs in order, a later key replacing an earlier one
  with the same value (all the \<^verbatim>\<open>None\<close> values end as the one key \<^verbatim>\<open>None\<close>).
\<close>

definition reverse_dict :: "frame_tuple option \<rightharpoonup> string" where
  "reverse_dict =
     foldl (\<lambda>d (key, ref). d(ref \<mapsto> key)) Map.empty COORD_PYUVDATA2CASA_DICT"

text \<open>
  \<^verbatim>\<open>_parse_pyuvdata_frame_ref(frame_name, epoch_val, *, raise_error=True)\<close>.  The
  looked-up key is always a pair, \<^verbatim>\<open>epoch_val=None\<close> standing for 2000.0.
\<close>

definition parse_pyuvdata_frame_ref ::
    "string \<Rightarrow> real option \<Rightarrow> bool \<Rightarrow> py_error + (warning list \<times> string option)" where
  "parse_pyuvdata_frame_ref frame_name epoch_val raise_error =
     (case reverse_dict
             (Some (frame_name, (case epoch_val of None \<Rightarrow> 2000 | Some e \<Rightarrow> e))) of
        Some ref_name \<Rightarrow> Inr ([], Some ref_name)
      | None \<Rightarrow>
          if raise_error
          then Inl (ValueError ''Frame does not have a corresponding match'')
          else Inr ([''Frame does not have a corresponding match''], None))"

text \<open>
  \<^verbatim>\<open>_parse_casa_frame_ref(ref_name, *, raise_error=True)\<close>: a missing key is the
  \<^verbatim>\<open>KeyError\<close> branch, a key whose value is \<^verbatim>\<open>None\<close> the not-yet-supported
  branch.
\<close>

definition parse_casa_frame_ref ::
    "string \<Rightarrow> bool \<Rightarrow> py_error + (warning list \<times> string option \<times> real option)" where
  "parse_casa_frame_ref ref_name raise_error =
     (case map_of COORD_PYUVDATA2CASA_DICT ref_name of
        None \<Rightarrow>
          if raise_error
          then Inl (ValueError ''The coordinate frame is not one of the supported frames'')
          else Inr ([''The coordinate frame is not one of the supported frames''], None, None)
      | Some None \<Rightarrow>
          if raise_error
          then Inl (NotImplementedError ''Support for the frame is not yet supported'')
          else Inr ([''Support for the frame is not yet supported''], None, None)
      | Some (Some frame_tuple) \<Rightarrow> Inr ([], Some (fst frame_tuple), Some (snd frame_tuple)))"

text \<open>The supported set: the pairs that are the non-\<^verbatim>\<open>None\<close> values of the table.\<close>

definition supported_frames :: "frame_tuple list" where
  "supported_frames = List.map_filter snd COORD_PYUVDATA2CASA_DICT"

section \<open>utils/frequency.py: numpy helpers\<close>

text \<open>\<^verbatim>\<open>np.unique\<close>: the sorted distinct values.\<close>

definition np_unique :: "int list \<Rightarrow> int list" where
  "np_unique xs = sort (remdups xs)"

text \<open>
  \<^verbatim>\<open>np.all(a == b)\<close> for two one-dimensional arrays.  Arrays of one length are
  compared entry by entry; an array of length one is broadcast against the other; any
  other pair of lengths cannot be broadcast (\<open>None\<close>: numpy from 1.25 on raises a
  \<^verbatim>\<open>ValueError\<close> in the comparison, older versions give \<^verbatim>\<open>False\<close>, which then
  fails the \<^verbatim>\<open>assert\<close>).
\<close>

definition np_all_eq :: "int list \<Rightarrow> int list \<Rightarrow> bool option" where
  "np_all_eq a b =
     (if length a = length b then Some (a = b)
      else if length a = 1 then Some (list_all (\<lambda>y. hd a = y) b)
      else if length b = 1 then Some (list_all (\<lambda>x. x = hd b) a)
      else None)"

text \<open>\<^verbatim>\<open>np.sum(x[1:] != x[:-1])\<close>: the two slices are paired entry by entry.\<close>

definition n_breaks :: "int list \<Rightarrow> nat" where
  "n_breaks x = length (filter (\<lambda>(a, b). a \<noteq> b) (zip (tl x) (butlast x)))"

text \<open>
  \<^verbatim>\<open>np.isclose(a, b, rtol, atol)\<close> is \<open>|a - b| \<le> atol + rtol * |b|\<close>;
  \<^verbatim>\<open>np.allclose\<close> of an array against a scalar asks it of every entry.
\<close>

definition np_isclose :: "real \<Rightarrow> real \<Rightarrow> real \<Rightarrow> real \<Rightarrow> bool" where
  "np_isclose a b rtol atol = (\<bar>a - b\<bar> \<le> atol + rtol * \<bar>b\<bar>)"

definition np_allclose :: "real list \<Rightarrow> real \<Rightarrow> real \<Rightarrow> real \<Rightarrow> bool" where
  "np_allclose xs b rtol atol = list_all (\<lambda>a. np_isclose a b rtol atol) xs"

text \<open>\<^verbatim>\<open>np.diff\<close>: \<open>x[i+1] - x[i]\<close>; \<^verbatim>\<open>np.mean\<close>.\<close>

definition np_diff :: "real list \<Rightarrow> real list" where
  "np_diff x = map (\<lambda>(a, b). a - b) (zip (tl x) (butlast x))"

definition np_mean :: "real list \<Rightarrow> real" where
  "np_mean xs = sum_list xs / real (length xs)"

text \<open>
  Modelled from the spec: \<^verbatim>\<open>tools._test_array_constant(array, tols=(rtol, atol))\<close>
  of \<^verbatim>\<open>pyuvdata/utils/tools.py\<close>, which is not among the source files.  The spec
  asks that the values be "constant within tolerance": the smallest and the largest
  value are close to each other.  An array with no entry counts as constant.
\<close>

definition test_array_constant :: "real list \<Rightarrow> real \<times> real \<Rightarrow> bool" where
  "test_array_constant xs tols =
     (xs = [] \<or> np_isclose (Min (set xs)) (Max (set xs)) (fst tols) (snd tols))"

text \<open>
  Indexing an array with a mask: the \<^verbatim>\<open>Ellipsis\<close> keeps the whole array, a boolean
  array keeps the entries where it is true and must have the array's length
  (\<^verbatim>\<open>IndexError\<close> otherwise).
\<close>

datatype mask = Ellipsis | Mask "bool list"

definition index_mask :: "'a list \<Rightarrow> mask \<Rightarrow> py_error + 'a list" where
  "index_mask arr m =
     (case m of
        Ellipsis \<Rightarrow> Inr arr
      | Mask bs \<Rightarrow>
          if length bs = length arr then Inr (map fst (filter snd (zip arr bs)))
          else Inl IndexError)"

section \<open>utils/frequency.py: the contiguity check\<close>

text \<open>
  \<^verbatim>\<open>_check_flex_spw_contiguous(*, spw_array, flex_spw_id_array)\<close>.  With one of the
  two arguments \<^verbatim>\<open>None\<close>, \<^verbatim>\<open>np.unique(None)\<close> is the one-entry array
  \<^verbatim>\<open>[None]\<close>, which equals no integer: the assertion fails unless the other array
  is empty, and then the following line reads an attribute or a slice of \<^verbatim>\<open>None\<close>.
\<close>

definition check_flex_spw_contiguous :: "int list option \<Rightarrow> int list option \<Rightarrow> py_error + unit" where
  "check_flex_spw_contiguous spw_array flex_spw_id_array =
     (case (spw_array, flex_spw_id_array) of
        (None, None) \<Rightarrow> Inr ()
      | (None, Some flex) \<Rightarrow>
          if flex = [] then Inl AttributeError
          else Inl (AssertionError ''entries in flex_spw_id_array that are not in spw_array'')
      | (Some spw, None) \<Rightarrow>
          if spw = [] then Inl TypeError
          else Inl (AssertionError ''entries in flex_spw_id_array that are not in spw_array'')
      | (Some spw, Some flex) \<Rightarrow>
          (case np_all_eq (np_unique flex) (np_unique spw) of
             None \<Rightarrow> Inl BroadcastError
           | Some False \<Rightarrow>
               Inl (AssertionError ''entries in flex_spw_id_array that are not in spw_array'')
           | Some True \<Rightarrow>
               if n_breaks flex + 1 \<noteq> length spw
               then Inl (ValueError ''Channels from different spectral windows are interspersed'')
               else Inr ()))"

text \<open>The spec's transition points: the places where two consecutive entries differ.\<close>

definition transition_points :: "int list \<Rightarrow> nat set" where
  "transition_points x = {i. Suc i < length x \<and> x ! i \<noteq> x ! Suc i}"

section \<open>utils/frequency.py: the spacing check\<close>

text \<open>
  One pass of the loop over the windows of \<^verbatim>\<open>_check_freq_spacing\<close>, on the two flags
  \<open>(spacing_error, chanwidth_error)\<close>.  \<open>spw_id = None\<close> is the single pass made
  when \<^verbatim>\<open>spw_array\<close> is \<^verbatim>\<open>None\<close>; compared with an array of integers it gives a
  mask that is false everywhere.  Subscripting a \<^verbatim>\<open>freq_array\<close> that is \<^verbatim>\<open>None\<close>
  is a \<^verbatim>\<open>TypeError\<close>.
\<close>

definition spacing_window ::
    "real list option \<Rightarrow> real \<times> real \<Rightarrow> real list option \<Rightarrow> real \<times> real \<Rightarrow>
     int list option \<Rightarrow> int option \<Rightarrow> bool \<times> bool \<Rightarrow> py_error + (bool \<times> bool)" where
  "spacing_window freq_array freq_tols channel_width channel_width_tols flex_spw_id_array
       spw_id flags =
     (let mask = (case flex_spw_id_array of
                    None \<Rightarrow> Ellipsis
                  | Some flex \<Rightarrow> Mask (map (\<lambda>x. spw_id = Some x) flex))
      in if mask = Ellipsis \<or> (case mask of Mask bs \<Rightarrow> 0 < length (filter id bs) | Ellipsis \<Rightarrow> False)
         then
           (case freq_array of
              None \<Rightarrow> Inl TypeError
            | Some freqs \<Rightarrow>
               (case index_mask freqs mask of
                  Inl e \<Rightarrow> Inl e
                | Inr sel_freqs \<Rightarrow>
                   (let freq_spacing = np_diff sel_freqs;
                        freq_dir = (if list_all (\<lambda>d. d < 0) freq_spacing then - 1 else 1);
                        spacing_error =
                          (if \<not> test_array_constant freq_spacing freq_tols then True
                           else fst flags)
                    in case channel_width of
                         None \<Rightarrow> Inr (spacing_error, snd flags)
                       | Some widths \<Rightarrow>
                          (case index_mask widths mask of
                             Inl e \<Rightarrow> Inl e
                           | Inr sel_widths \<Rightarrow>
                               if \<not> test_array_constant sel_widths channel_width_tols
                               then Inr (True, snd flags)
                               else if \<not> np_allclose freq_spacing (np_mean sel_widths * freq_dir)
                                          (fst channel_width_tols) (snd channel_width_tols)
                               then Inr (spacing_error, True)
                               else Inr (spacing_error, snd flags)))))
         else Inr flags)"

fun spacing_loop ::
    "real list option \<Rightarrow> real \<times> real \<Rightarrow> real list option \<Rightarrow> real \<times> real \<Rightarrow>
     int list option \<Rightarrow> int option list \<Rightarrow> bool \<times> bool \<Rightarrow> py_error + (bool \<times> bool)" where
  "spacing_loop freq_array freq_tols channel_width channel_width_tols flex [] flags = Inr flags"
| "spacing_loop freq_array freq_tols channel_width channel_width_tols flex (spw_id # rest) flags =
     (case spacing_window freq_array freq_tols channel_width channel_width_tols flex spw_id flags of
        Inl e \<Rightarrow> Inl e
      | Inr flags' \<Rightarrow>
          spacing_loop freq_array freq_tols channel_width channel_width_tols flex rest flags')"

text \<open>
  \<^verbatim>\<open>_check_freq_spacing(*, freq_array, freq_tols, channel_width, channel_width_tols,
  spw_array, flex_spw_id_array, raise_errors)\<close>: the contiguity check, the loop over the
  windows, then the two raises.
\<close>

definition check_freq_spacing ::
    "real list option \<Rightarrow> real \<times> real \<Rightarrow> real list option \<Rightarrow> real \<times> real \<Rightarrow>
     int list option \<Rightarrow> int list option \<Rightarrow> bool \<Rightarrow> py_error + (bool \<times> bool)" where
  "check_freq_spacing freq_array freq_tols channel_width channel_width_tols spw_array
       flex_spw_id_array raise_errors =
     (case check_flex_spw_contiguous spw_array flex_spw_id_array of
        Inl e \<Rightarrow> Inl e
      | Inr _ \<Rightarrow>
         (case spacing_loop freq_array freq_tols channel_width channel_width_tols
                 flex_spw_id_array
                 (case spw_array of None \<Rightarrow> [None] | Some spw \<Rightarrow> map Some spw)
                 (False, False) of
            Inl e \<Rightarrow> Inl e
          | Inr (spacing_error, chanwidth_error) \<Rightarrow>
              if raise_errors \<and> spacing_error
              then Inl (ValueError ''The frequencies are not evenly spaced'')
              else if raise_errors \<and> chanwidth_error
              then Inl (ValueError ''The frequencies are separated by more than their channel width'')
              else Inr (spacing_error, chanwidth_error)))"

text \<open>The default \<^verbatim>\<open>channel_width_tols=(0, 1e-3)\<close> of the signature.\<close>

definition default_channel_width_tols :: "real \<times> real" where
  "default_channel_width_tols = (0, 1 / 1000)"

section \<open>uvcal/ms\_cal.py: the rows that write\_ms\_cal allocates\<close>

text \<open>The fields of the calibration object that the row layout reads.\<close>

record uvcal =
  cal_type :: string
  wide_band :: bool
  Ntimes :: nat
  Nfreqs :: nat
  Nspws :: nat
  antenna_numbers :: "nat list"

text \<open>\<^verbatim>\<open>np.tile(a, n)\<close>, \<^verbatim>\<open>np.repeat(a, n)\<close> and \<^verbatim>\<open>np.arange(n)\<close>.\<close>

definition np_tile :: "'a list \<Rightarrow> nat \<Rightarrow> 'a list" where
  "np_tile a n = concat (replicate n a)"

definition np_repeat :: "'a list \<Rightarrow> nat \<Rightarrow> 'a list" where
  "np_repeat a n = concat (map (replicate n) a)"

definition np_arange :: "nat \<Rightarrow> nat list" where
  "np_arange n = [0..<n]"

text \<open>
  The part of \<^verbatim>\<open>MSCal.write_ms_cal(filename, clobber)\<close> that lays the main table
  out: the check of the file (\<open>file_exists\<close> is whether the path exists), the check
  of \<^verbatim>\<open>cal_type\<close>, the padded antenna count \<^verbatim>\<open>Nants_casa\<close> (\<^verbatim>\<open>np.max\<close> of an
  empty array raises), the argument of \<^verbatim>\<open>ms.addrows\<close>, and two of the columns
  that are then written with one \<^verbatim>\<open>putcol\<close> over all the rows: \<^verbatim>\<open>ANTENNA1\<close>
  (the source's \<^verbatim>\<open>ant_array\<close>) and \<^verbatim>\<open>SPECTRAL_WINDOW_ID\<close> (its
  \<^verbatim>\<open>spw_id_array\<close>).
\<close>

record ms_cal_layout =
  casa_subtype :: string
  rows_added :: nat
  ANTENNA1 :: "nat list"
  SPECTRAL_WINDOW_ID :: "nat list"

definition write_ms_cal_layout :: "uvcal \<Rightarrow> bool \<Rightarrow> bool \<Rightarrow> py_error + ms_cal_layout" where
  "write_ms_cal_layout self file_exists clobber =
     (if file_exists \<and> \<not> clobber then Inl FileExistsError
      else if cal_type self \<noteq> ''gain''
      then Inl (NotImplementedError ''Sorry, still working on this...'')
      else if antenna_numbers self = []
      then Inl (ValueError ''zero-size array to reduction operation maximum'')
      else
        (let Nants_casa = Max (set (antenna_numbers self)) + 1
         in Inr \<lparr>casa_subtype = (if wide_band self then ''G Jones'' else ''B Jones''),
                 rows_added = Ntimes self * Nfreqs self * Nants_casa,
                 ANTENNA1 = np_tile (np_arange Nants_casa) (Ntimes self * Nspws self),
                 SPECTRAL_WINDOW_ID =
                   np_repeat (np_arange (Nspws self)) (Nants_casa * Ntimes self)\<rparr>))"

section \<open>uvcal/ms\_cal.py: the time index of read\_ms\_cal\<close>

text \<open>
  The loop over \<^verbatim>\<open>tb_main.getcol("TIME")\<close>.  \<^verbatim>\<open>time_dict\<close> is a dictionary in
  insertion order, here the list of its items; a new key goes to the end.
  \<^verbatim>\<open>np.where(close_check)[0][0]\<close> is the position of the first key that is close.
  \<open>tols\<close> are \<^verbatim>\<open>self._time_array.tols\<close>, in days.
\<close>

record time_index =
  time_dict :: "(real \<times> nat) list"
  row_timeidx_map :: "nat list"
  time_count :: nat

definition first_true :: "bool list \<Rightarrow> nat" where
  "first_true bs = length (takeWhile Not bs)"

definition time_index_step :: "real \<times> real \<Rightarrow> time_index \<Rightarrow> real \<Rightarrow> time_index" where
  "time_index_step tols st time =
     (case map_of (time_dict st) time of
        Some idx \<Rightarrow> st\<lparr>row_timeidx_map := row_timeidx_map st @ [idx]\<rparr>
      | None \<Rightarrow>
          (let close_check =
                 map (\<lambda>k. np_isclose k time (fst tols * 86400) (snd tols * 86400))
                   (map fst (time_dict st))
           in if list_ex id close_check
              then st\<lparr>time_dict := time_dict st @ [(time, first_true close_check)],
                      row_timeidx_map := row_timeidx_map st @ [first_true close_check]\<rparr>
              else st\<lparr>time_dict := time_dict st @ [(time, time_count st)],
                      time_count := time_count st + 1,
                      row_timeidx_map := row_timeidx_map st @ [time_count st]\<rparr>))"

definition read_time_index :: "real \<times> real \<Rightarrow> real list \<Rightarrow> time_index" where
  "read_time_index tols raw_times =
     foldl (time_index_step tols) \<lparr>time_dict = [], row_timeidx_map = [], time_count = 0\<rparr>
       raw_times"

section \<open>ms\_utils.py: strings\<close>

text \<open>
  A \<open>char\<close> stands for a code point below 256.  \<^verbatim>\<open>str.splitlines()\<close> breaks a
  string at the line boundaries of Python (line feed, carriage return and the pair of
  both, vertical tab, form feed, the three separators 0x1C to 0x1E, next line 0x85);
  the boundaries are not part of the lines, and a boundary at the very end starts no
  further line.
\<close>

definition line_boundary :: "char \<Rightarrow> bool" where
  "line_boundary c =
     (c \<in> set [CHR 0x0A, CHR 0x0D, CHR 0x0B, CHR 0x0C, CHR 0x1C, CHR 0x1D, CHR 0x1E, CHR 0x85])"

fun splitlines_from :: "string \<Rightarrow> string \<Rightarrow> string list" where
  "splitlines_from cur [] = (if cur = [] then [] else [rev cur])"
| "splitlines_from cur [c] = (if line_boundary c then [rev cur] else [rev (c # cur)])"
| "splitlines_from cur (c # d # cs) =
     (if c = CHR 0x0D \<and> d = CHR 0x0A then rev cur # splitlines_from [] cs
      else if line_boundary c then rev cur # splitlines_from [] (d # cs)
      else splitlines_from (c # cur) (d # cs))"

definition splitlines :: "string \<Rightarrow> string list" where
  "splitlines s = splitlines_from [] s"

text \<open>\<^verbatim>\<open>s.split(sep)\<close> for a separator of one character: always at least one part.\<close>

fun split_on :: "char \<Rightarrow> string \<Rightarrow> string list" where
  "split_on sep [] = [[]]"
| "split_on sep (c # cs) =
     (if c = sep then [] # split_on sep cs
      else (case split_on sep cs of [] \<Rightarrow> [[c]] | p # ps \<Rightarrow> (c # p) # ps))"

text \<open>\<^verbatim>\<open>sub in s\<close> for strings, and \<^verbatim>\<open>sep.join(parts)\<close>.\<close>

fun str_in :: "string \<Rightarrow> string \<Rightarrow> bool" where
  "str_in sub [] = (sub = [])"
| "str_in sub (c # cs) = (take (length sub) (c # cs) = sub \<or> str_in sub cs)"

fun str_join :: "string \<Rightarrow> string list \<Rightarrow> string" where
  "str_join sep [] = []"
| "str_join sep [p] = p"
| "str_join sep (p # q # ps) = p @ sep @ str_join sep (q # ps)"

text \<open>A text given by its lines, each ended by a line feed.\<close>

definition text_of_lines :: "string list \<Rightarrow> string" where
  "text_of_lines ls = concat (map (\<lambda>l. l @ [CHR 0x0A]) ls)"

section \<open>ms\_utils.py: the HISTORY table\<close>

text \<open>A row of the HISTORY table, with the columns the reader and the writer use.\<close>

record history_row =
  APP_PARAMS :: string
  CLI_COMMAND :: string
  APPLICATION :: string
  MESSAGE :: string
  OBJECT_ID :: int
  OBSERVATION_ID :: int
  ORIGIN :: string
  PRIORITY :: string
  TIME :: real

text \<open>
  The row that \<^verbatim>\<open>write_ms_history\<close> makes of a line of its own: \<open>now\<close> is what
  \<^verbatim>\<open>Time.now().mjd\<close> reads at that moment.
\<close>

definition pyuvdata_row :: "real \<Rightarrow> string \<Rightarrow> history_row" where
  "pyuvdata_row now line =
     \<lparr>APP_PARAMS = '''', CLI_COMMAND = '''', APPLICATION = ''pyuvdata'', MESSAGE = line,
      OBJECT_ID = 0, OBSERVATION_ID = - 1, ORIGIN = ''pyuvdata'', PRIORITY = ''INFO'',
      TIME = now * 3600 * 24\<rparr>"

text \<open>
  The state of the loop over the lines of the history in \<^verbatim>\<open>write_ms_history\<close>.
  The nine lists of the source grow together, one entry each per row: they are the
  list \<open>rows\<close>.
\<close>

record history_parse =
  ms_history :: bool
  ms_header_line_no :: "nat option"
  ms_end_line_no :: "nat option"
  pre_ms_history_lines :: "string list"
  post_ms_history_lines :: "string list"
  rows :: "history_row list"
  warnings :: "warning list"

text \<open>
  One line of that loop.  \<open>py_int\<close> and \<open>np_float64\<close> are Python's \<^verbatim>\<open>int\<close> and
  numpy's \<^verbatim>\<open>np.float64\<close> on a string (\<open>None\<close> where they raise a
  \<^verbatim>\<open>ValueError\<close>).
\<close>

definition history_line ::
    "(string \<Rightarrow> int option) \<Rightarrow> (string \<Rightarrow> real option) \<Rightarrow> history_parse \<Rightarrow> nat \<times> string \<Rightarrow>
     py_error + history_parse" where
  "history_line py_int np_float64 st numbered =
     (let line_no = fst numbered; line = snd numbered
      in if \<not> ms_history st then Inr st
         else if str_in ''APP_PARAMS;CLI_COMMAND;APPLICATION;MESSAGE'' line
         then Inr (st\<lparr>ms_header_line_no := Some line_no\<rparr>)
         else if str_in ''End measurement set history'' line
         then Inr (st\<lparr>ms_end_line_no := Some line_no\<rparr>)
         else if ms_header_line_no st \<noteq> None \<and> ms_end_line_no st = None
         then
           (let line_parts = split_on CHR '';'' line
            in if length line_parts \<noteq> 9
               then Inr (st\<lparr>warnings := warnings st @ [''Failed to parse prior history of MS file''],
                            pre_ms_history_lines := [], post_ms_history_lines := [],
                            ms_history := False\<rparr>)
               else
                 (case py_int (line_parts ! 4) of
                    None \<Rightarrow> Inl (ValueError ''invalid literal for int()'')
                  | Some obj \<Rightarrow>
                     (case py_int (line_parts ! 5) of
                        None \<Rightarrow> Inl (ValueError ''invalid literal for int()'')
                      | Some obs \<Rightarrow>
                         (case np_float64 (line_parts ! 8) of
                            None \<Rightarrow> Inl (ValueError ''could not convert string to float'')
                          | Some t \<Rightarrow>
                              Inr (st\<lparr>rows := rows st @
                                     [\<lparr>APP_PARAMS = line_parts ! 0, CLI_COMMAND = line_parts ! 1,
                                       APPLICATION = line_parts ! 2, MESSAGE = line_parts ! 3,
                                       OBJECT_ID = obj, OBSERVATION_ID = obs,
                                       ORIGIN = line_parts ! 6, PRIORITY = line_parts ! 7,
                                       TIME = t\<rparr>]\<rparr>)))))
         else if ms_header_line_no st = None
         then
           (if \<not> str_in ''Begin measurement set history'' line
            then Inr (st\<lparr>pre_ms_history_lines := pre_ms_history_lines st @ [line]\<rparr>)
            else Inr st)
         else Inr (st\<lparr>post_ms_history_lines := post_ms_history_lines st @ [line]\<rparr>))"

fun history_lines ::
    "(string \<Rightarrow> int option) \<Rightarrow> (string \<Rightarrow> real option) \<Rightarrow> history_parse \<Rightarrow> (nat \<times> string) list \<Rightarrow>
     py_error + history_parse" where
  "history_lines py_int np_float64 st [] = Inr st"
| "history_lines py_int np_float64 st (l # ls) =
     (case history_line py_int np_float64 st l of
        Inl e \<Rightarrow> Inl e
      | Inr st' \<Rightarrow> history_lines py_int np_float64 st' ls)"

text \<open>\<^verbatim>\<open>list.insert(i, x)\<close> for \<open>i \<ge> 0\<close>, and \<^verbatim>\<open>enumerate\<close>.\<close>

definition list_insert :: "nat \<Rightarrow> 'a \<Rightarrow> 'a list \<Rightarrow> 'a list" where
  "list_insert i x xs = take i xs @ [x] @ drop i xs"

definition enumerate_list :: "'a list \<Rightarrow> (nat \<times> 'a) list" where
  "enumerate_list xs = zip [0..<length xs] xs"

text \<open>
  The rows of the lines before the block are inserted at the front, the rows of the
  lines after it and the rows of the line-by-line recording are appended.  Each row
  reads the clock: \<open>clock k\<close> is the \<open>k\<close>-th reading of \<^verbatim>\<open>Time.now().mjd\<close>, and the
  state is the rows with the number of readings made.
\<close>

definition insert_pre_line ::
    "(nat \<Rightarrow> real) \<Rightarrow> history_row list \<times> nat \<Rightarrow> nat \<times> string \<Rightarrow> history_row list \<times> nat" where
  "insert_pre_line clock st numbered =
     (list_insert (fst numbered) (pyuvdata_row (clock (snd st)) (snd numbered)) (fst st),
      snd st + 1)"

definition append_line ::
    "(nat \<Rightarrow> real) \<Rightarrow> history_row list \<times> nat \<Rightarrow> string \<Rightarrow> history_row list \<times> nat" where
  "append_line clock st line = (fst st @ [pyuvdata_row (clock (snd st)) line], snd st + 1)"

text \<open>
  \<^verbatim>\<open>write_ms_history(filepath, history)\<close>, after its check of the path: the warnings
  and the rows that it puts into the HISTORY table.
\<close>

definition write_ms_history ::
    "(string \<Rightarrow> int option) \<Rightarrow> (string \<Rightarrow> real option) \<Rightarrow> (nat \<Rightarrow> real) \<Rightarrow> string \<Rightarrow>
     py_error + (warning list \<times> history_row list)" where
  "write_ms_history py_int np_float64 clock history =
     (let start = \<lparr>ms_history = str_in ''APP_PARAMS;CLI_COMMAND;APPLICATION;MESSAGE'' history,
                   ms_header_line_no = None, ms_end_line_no = None,
                   pre_ms_history_lines = [], post_ms_history_lines = [],
                   rows = [], warnings = []\<rparr>
      in case (if ms_history start
               then history_lines py_int np_float64 start (enumerate_list (splitlines history))
               else Inr start) of
           Inl e \<Rightarrow> Inl e
         | Inr st \<Rightarrow>
            (let parsed =
                   (if ms_history start
                    then foldl (append_line clock)
                           (foldl (insert_pre_line clock) (rows st, 0)
                              (enumerate_list (pre_ms_history_lines st)))
                           (post_ms_history_lines st)
                    else (rows st, 0));
                 final =
                   (if \<not> ms_history st
                    then foldl (append_line clock) parsed (splitlines history)
                    else parsed)
             in Inr (warnings st, fst final)))"

text \<open>
  Two readers of decimal literals, for running the writer: an optional minus sign and
  digits, and the same with an optional fraction.  Python's \<^verbatim>\<open>int\<close> and numpy's
  \<^verbatim>\<open>np.float64\<close> read these strings so (and accept further forms).
\<close>

definition digit_val :: "char \<Rightarrow> nat option" where
  "digit_val c =
     map_of [(CHR ''0'', 0), (CHR ''1'', 1), (CHR ''2'', 2), (CHR ''3'', 3), (CHR ''4'', 4),
             (CHR ''5'', 5), (CHR ''6'', 6), (CHR ''7'', 7), (CHR ''8'', 8), (CHR ''9'', 9)] c"

fun digits_val :: "nat \<Rightarrow> string \<Rightarrow> nat option" where
  "digits_val acc [] = Some acc"
| "digits_val acc (c # cs) =
     (case digit_val c of None \<Rightarrow> None | Some d \<Rightarrow> digits_val (10 * acc + d) cs)"

definition decimal_nat :: "string \<Rightarrow> nat option" where
  "decimal_nat s = (if s = [] then None else digits_val 0 s)"

definition decimal_int :: "string \<Rightarrow> int option" where
  "decimal_int s =
     (case s of
        [] \<Rightarrow> None
      | c # cs \<Rightarrow>
          if c = CHR ''-'' then map_option (\<lambda>n. - int n) (decimal_nat cs)
          else map_option int (decimal_nat s))"

definition decimal_real :: "string \<Rightarrow> real option" where
  "decimal_real s =
     (case split_on CHR ''.'' s of
        [ip] \<Rightarrow> map_option real_of_int (decimal_int ip)
      | [ip, fp] \<Rightarrow>
          (case (decimal_int ip, decimal_nat fp) of
             (Some w, Some f) \<Rightarrow>
               Some (if take 1 ip = ''-''
                     then real_of_int w - real f / 10 ^ length fp
                     else real_of_int w + real f / 10 ^ length fp)
           | _ \<Rightarrow> None)
      | _ \<Rightarrow> None)"

text \<open>
  The HISTORY table as \<^verbatim>\<open>read_ms_hist\<close> sees it: its rows, and whether it has the
  two columns whose \<^verbatim>\<open>getcol\<close> may raise a \<^verbatim>\<open>RuntimeError\<close>.
\<close>

record history_table =
  has_app_params :: bool
  has_cli_command :: bool
  table_rows :: "history_row list"

text \<open>
  The line of a row: \<^verbatim>\<open>";".join([str(col[row_idx]) for col in cols]) + "\n"\<close>.
  \<open>str_int\<close> and \<open>str_float\<close> are Python's \<^verbatim>\<open>str\<close> on the integer and the
  floating point cells.
\<close>

definition history_row_line ::
    "(int \<Rightarrow> string) \<Rightarrow> (real \<Rightarrow> string) \<Rightarrow> history_table \<Rightarrow> history_row \<Rightarrow> string" where
  "history_row_line str_int str_float tb r =
     str_join '';''
       ((if has_app_params tb then [APP_PARAMS r] else []) @
        (if has_cli_command tb then [CLI_COMMAND r] else []) @
        [APPLICATION r, MESSAGE r, str_int (OBJECT_ID r), str_int (OBSERVATION_ID r),
         ORIGIN r, PRIORITY r, str_float (TIME r)])
     @ [CHR 0x0A]"

text \<open>
  The loop over \<^verbatim>\<open>pyuvdata_line_idx\<close>: a line of this software from before the
  first other row goes in front of the history, any other one behind it.
\<close>

definition place_pyuvdata_line :: "string list \<Rightarrow> int \<Rightarrow> string \<Rightarrow> nat \<Rightarrow> string" where
  "place_pyuvdata_line messages min_ms_line_idx history_str idx =
     (if int idx < min_ms_line_idx then messages ! idx @ [CHR 0x0A] @ history_str
      else history_str @ messages ! idx @ [CHR 0x0A])"

text \<open>
  The history that \<^verbatim>\<open>read_ms_hist\<close> assembles from the table, before the check of
  the version: \<^verbatim>\<open>history_str\<close> and \<^verbatim>\<open>pyuvdata_written\<close> at the end of the
  \<^verbatim>\<open>with\<close> block.
\<close>

definition assemble_history ::
    "(int \<Rightarrow> string) \<Rightarrow> (real \<Rightarrow> string) \<Rightarrow> history_table \<Rightarrow> string \<times> bool" where
  "assemble_history str_int str_float tb =
     (let nrows = length (table_rows tb);
          application = map APPLICATION (table_rows tb);
          message = map MESSAGE (table_rows tb);
          pyuvdata_line_idx = filter (\<lambda>idx. str_in ''pyuvdata'' (application ! idx)) [0..<nrows];
          ms_line_idx = filter (\<lambda>idx. idx \<notin> set pyuvdata_line_idx) [0..<nrows];
          min_ms_line_idx = (if ms_line_idx = [] then - 1 else int (Min (set ms_line_idx)));
          block =
            ''Begin measurement set history'' @ [CHR 0x0A] @
            (if has_app_params tb then ''APP_PARAMS;'' else '''') @
            (if has_cli_command tb then ''CLI_COMMAND;'' else '''') @
            ''APPLICATION;MESSAGE;OBJECT_ID;OBSERVATION_ID;ORIGIN;PRIORITY;TIME'' @ [CHR 0x0A] @
            concat (map (\<lambda>idx. history_row_line str_int str_float tb (table_rows tb ! idx))
                      ms_line_idx) @
            ''End measurement set history.'' @ [CHR 0x0A]
      in if 0 < nrows
         then (foldl (place_pyuvdata_line message min_ms_line_idx) block pyuvdata_line_idx,
               pyuvdata_line_idx \<noteq> [])
         else ('''', False))"

text \<open>
  Modelled from the spec: \<^verbatim>\<open>uvutils._check_history_version(history, version)\<close>, of
  \<^verbatim>\<open>pyuvdata/utils\<close>, is not among the source files.  The version is appended "if
  not previously encoded into the history": the check holds when the version string
  occurs in the history.
\<close>

definition check_history_version :: "string \<Rightarrow> string \<Rightarrow> bool" where
  "check_history_version history version_string = str_in version_string history"

text \<open>
  \<^verbatim>\<open>read_ms_hist(filepath, pyuvdata_version_str, check_origin)\<close>.  A table that is
  not there (\<open>None\<close>) fails the check of the path.  The result is the pair that
  \<^verbatim>\<open>check_origin=True\<close> returns; without it the source returns the first
  component.
\<close>

definition read_ms_hist ::
    "(int \<Rightarrow> string) \<Rightarrow> (real \<Rightarrow> string) \<Rightarrow> history_table option \<Rightarrow> string \<Rightarrow>
     py_error + (string \<times> bool)" where
  "read_ms_hist str_int str_float table pyuvdata_version_str =
     (case table of
        None \<Rightarrow> Inl FileNotFoundError
      | Some tb \<Rightarrow>
         (let history_str = fst (assemble_history str_int str_float tb);
              pyuvdata_written = snd (assemble_history str_int str_float tb)
          in Inr (if \<not> check_history_version history_str pyuvdata_version_str
                  then history_str @ pyuvdata_version_str
                  else history_str,
                  pyuvdata_written)))"

text \<open>
  The assembled history in the words of the spec: the rows of other software, one line
  each, between the header and the footer; the messages of the rows of this software
  (those whose application names pyuvdata), one line each, go in front of that block
  or behind it.
\<close>

definition is_pyuvdata_row :: "history_row \<Rightarrow> bool" where
  "is_pyuvdata_row r = str_in ''pyuvdata'' (APPLICATION r)"

definition message_line :: "history_row \<Rightarrow> string" where
  "message_line r = MESSAGE r @ [CHR 0x0A]"

definition ms_history_block ::
    "(int \<Rightarrow> string) \<Rightarrow> (real \<Rightarrow> string) \<Rightarrow> history_table \<Rightarrow> string" where
  "ms_history_block str_int str_float tb =
     ''Begin measurement set history'' @ [CHR 0x0A] @
     (if has_app_params tb then ''APP_PARAMS;'' else '''') @
     (if has_cli_command tb then ''CLI_COMMAND;'' else '''') @
     ''APPLICATION;MESSAGE;OBJECT_ID;OBSERVATION_ID;ORIGIN;PRIORITY;TIME'' @ [CHR 0x0A] @
     concat (map (history_row_line str_int str_float tb)
               (filter (\<lambda>r. \<not> is_pyuvdata_row r) (table_rows tb))) @
     ''End measurement set history.'' @ [CHR 0x0A]"

section \<open>ms\_utils.py: the ANTENNA table\<close>

type_synonym vec3 = "real \<times> real \<times> real"

definition vec3_add :: "vec3 \<Rightarrow> vec3 \<Rightarrow> vec3" where
  "vec3_add p q =
     (fst p + fst q, fst (snd p) + fst (snd q), snd (snd p) + snd (snd q))"

text \<open>\<^verbatim>\<open>np.any\<close> along a row of three coordinates: one of them is not zero.\<close>

definition vec3_any :: "vec3 \<Rightarrow> bool" where
  "vec3_any p = (fst p \<noteq> 0 \<or> fst (snd p) \<noteq> 0 \<or> snd (snd p) \<noteq> 0)"

record antenna_row =
  NAME :: string
  STATION :: string
  POSITION :: vec3
  DISH_DIAMETER :: real

text \<open>The table: its rows, and the \<^verbatim>\<open>Ref\<close> of the \<^verbatim>\<open>MEASINFO\<close> of \<^verbatim>\<open>POSITION\<close>.\<close>

record antenna_table =
  antenna_rows :: "antenna_row list"
  position_ref :: string

text \<open>\<^verbatim>\<open>str.upper()\<close> and \<^verbatim>\<open>str.lower()\<close>, on the letters of ASCII.\<close>

definition ascii_upper :: "char \<Rightarrow> char" where
  "ascii_upper c =
     (case map_of (zip ''abcdefghijklmnopqrstuvwxyz'' ''ABCDEFGHIJKLMNOPQRSTUVWXYZ'') c of
        None \<Rightarrow> c | Some u \<Rightarrow> u)"

definition ascii_lower :: "char \<Rightarrow> char" where
  "ascii_lower c =
     (case map_of (zip ''ABCDEFGHIJKLMNOPQRSTUVWXYZ'' ''abcdefghijklmnopqrstuvwxyz'') c of
        None \<Rightarrow> c | Some l \<Rightarrow> l)"

definition str_upper :: "string \<Rightarrow> string" where
  "str_upper s = map ascii_upper s"

definition str_lower :: "string \<Rightarrow> string" where
  "str_lower s = map ascii_lower s"

text \<open>
  \<^verbatim>\<open>for ai, num in enumerate(antenna_numbers): table[num] = values[ai]\<close>: the values
  are read in step with the numbers, and running out of values is an
  \<^verbatim>\<open>IndexError\<close>.  Every number is below the length of the table, which is the
  largest number plus one.
\<close>

fun scatter_rows :: "nat list \<Rightarrow> 'a list \<Rightarrow> 'a list \<Rightarrow> py_error + 'a list" where
  "scatter_rows [] vals tbl = Inr tbl"
| "scatter_rows (num # nums) [] tbl = Inl IndexError"
| "scatter_rows (num # nums) (v # vals) tbl = scatter_rows nums vals (tbl[num := v])"

text \<open>
  \<^verbatim>\<open>write_ms_antenna\<close>, after its check of the path, with the keyword arguments.
  \<^verbatim>\<open>addrows\<close> gives rows whose cells are empty strings and zeros; the columns
  \<^verbatim>\<open>NAME\<close>, \<^verbatim>\<open>STATION\<close> and \<^verbatim>\<open>POSITION\<close> are then written whole, and
  \<^verbatim>\<open>DISH_DIAMETER\<close> only when diameters are given.
\<close>

definition write_ms_antenna ::
    "nat list \<Rightarrow> string list \<Rightarrow> vec3 list \<Rightarrow> real list option \<Rightarrow> vec3 \<Rightarrow> string \<Rightarrow>
     py_error + antenna_table" where
  "write_ms_antenna antenna_nums antenna_names antenna_positions antenna_diameters
       telescope_location telescope_frame =
     (if antenna_nums = [] then Inl (ValueError ''zero-size array to reduction operation maximum'')
      else
       (let nants_table = Max (set antenna_nums) + 1;
            ant_pos_absolute = map (\<lambda>p. vec3_add p telescope_location) antenna_positions;
            frame_upper = str_upper telescope_frame;
            frame_ref = (if frame_upper = ''ITRS'' then ''ITRF'' else frame_upper)
        in case scatter_rows antenna_nums antenna_names (replicate nants_table '''') of
             Inl e \<Rightarrow> Inl e
           | Inr ant_names_table \<Rightarrow>
              (case scatter_rows antenna_nums ant_pos_absolute (replicate nants_table (0, 0, 0)) of
                 Inl e \<Rightarrow> Inl e
               | Inr ant_pos_table \<Rightarrow>
                  (case (case antenna_diameters of
                           None \<Rightarrow> Inr (replicate nants_table 0)
                         | Some diams \<Rightarrow>
                             if length (remdups diams) = 1
                             then Inr (replicate nants_table (hd diams))
                             else scatter_rows antenna_nums diams (replicate nants_table 0)) of
                     Inl e \<Rightarrow> Inl e
                   | Inr ant_diam_table \<Rightarrow>
                       Inr \<lparr>antenna_rows =
                              map (\<lambda>i. \<lparr>NAME = ant_names_table ! i, STATION = ant_names_table ! i,
                                         POSITION = ant_pos_table ! i,
                                         DISH_DIAMETER = ant_diam_table ! i\<rparr>)
                                [0..<nants_table],
                            position_ref = frame_ref\<rparr>))))"

text \<open>\<^verbatim>\<open>read_ms_ant(filepath, check_frame=True)\<close> on a table that exists.\<close>

record ant_dict =
  antenna_positions_out :: "vec3 list"
  antenna_numbers_out :: "nat list"
  telescope_frame_out :: string
  antenna_names_out :: "string list"
  station_names_out :: "string list"
  antenna_diameters_out :: "real list"

definition read_ms_ant :: "antenna_table \<Rightarrow> bool \<Rightarrow> py_error + ant_dict" where
  "read_ms_ant tb_ant check_frame =
     (let telescope_frame = str_lower (position_ref tb_ant)
      in if check_frame \<and> telescope_frame \<notin> set [''itrs'', ''mcmf'', ''itrf'']
         then Inl (ValueError ''Telescope frame in file is not supported'')
         else
          (let frame = (if check_frame \<and> telescope_frame = ''itrf'' then ''itrs''
                        else telescope_frame);
               n_ants_table = length (antenna_rows tb_ant);
               good = filter (\<lambda>i. vec3_any (POSITION (antenna_rows tb_ant ! i))) [0..<n_ants_table]
           in Inr \<lparr>antenna_positions_out = map (\<lambda>i. POSITION (antenna_rows tb_ant ! i)) good,
                   antenna_numbers_out = good,
                   telescope_frame_out = frame,
                   antenna_names_out = map (\<lambda>i. NAME (antenna_rows tb_ant ! i)) good,
                   station_names_out = map (\<lambda>i. STATION (antenna_rows tb_ant ! i)) good,
                   antenna_diameters_out =
                     map (\<lambda>i. DISH_DIAMETER (antenna_rows tb_ant ! i)) good\<rparr>))"

text \<open>Writing an antenna set and reading the table back.\<close>

definition antenna_round_trip ::
    "nat list \<Rightarrow> string list \<Rightarrow> vec3 list \<Rightarrow> real list option \<Rightarrow> vec3 \<Rightarrow> string \<Rightarrow> bool \<Rightarrow>
     py_error + ant_dict" where
  "antenna_round_trip antenna_nums antenna_names antenna_positions antenna_diameters
       telescope_location telescope_frame check_frame =
     (case write_ms_antenna antenna_nums antenna_names antenna_positions antenna_diameters
             telescope_location telescope_frame of
        Inl e \<Rightarrow> Inl e
      | Inr tb_ant \<Rightarrow> read_ms_ant tb_ant check_frame)"

section \<open>utils/frequency.py: the selection of frequencies\<close>

text \<open>
  Index arrays are arrays of integers.  \<^verbatim>\<open>np.isin(element, test_elements, invert)\<close>,
  \<^verbatim>\<open>np.nonzero(mask)[0]\<close>, \<^verbatim>\<open>np.intersect1d\<close> (the sorted values that are in both
  arrays, each once), indexing with an index array (a negative index counts from the
  end, an index out of range is an \<^verbatim>\<open>IndexError\<close>) and \<^verbatim>\<open>sorted(set(xs))\<close>.
\<close>

definition np_isin :: "int list \<Rightarrow> int list \<Rightarrow> bool \<Rightarrow> bool list" where
  "np_isin element test_elements invert = map (\<lambda>x. (x \<in> set test_elements) \<noteq> invert) element"

definition np_nonzero :: "bool list \<Rightarrow> int list" where
  "np_nonzero bs = map int (filter (\<lambda>i. bs ! i) [0..<length bs])"

definition np_intersect1d :: "int list \<Rightarrow> int list \<Rightarrow> int list" where
  "np_intersect1d a b = sort (remdups (filter (\<lambda>x. x \<in> set b) a))"

definition np_take :: "'a list \<Rightarrow> int list \<Rightarrow> py_error + 'a list" where
  "np_take arr inds =
     (let n = int (length arr)
      in if list_all (\<lambda>i. - n \<le> i \<and> i < n) inds
         then Inr (map (\<lambda>i. arr ! nat (if i < 0 then i + n else i)) inds)
         else Inl IndexError)"

definition sorted_set :: "int list \<Rightarrow> int list" where
  "sorted_set xs = sort (remdups xs)"

text \<open>
  The loop over the requested frequencies: the channels close to each frequency are
  appended to \<^verbatim>\<open>freq_chans\<close>.  \<^verbatim>\<open>np.isclose\<close> on an \<^verbatim>\<open>obj_freq_array\<close> that is
  \<^verbatim>\<open>None\<close> is a \<^verbatim>\<open>TypeError\<close>.
\<close>

fun select_freq_loop ::
    "real list option \<Rightarrow> real \<times> real \<Rightarrow> bool \<Rightarrow> real list \<Rightarrow> int list \<Rightarrow> py_error + int list" where
  "select_freq_loop obj_freq_array freq_tols invert [] freq_chans = Inr freq_chans"
| "select_freq_loop obj_freq_array freq_tols invert (freq # rest) freq_chans =
     (case obj_freq_array of
        None \<Rightarrow> Inl TypeError
      | Some freqs \<Rightarrow>
         (let close = map (\<lambda>f. np_isclose f freq (fst freq_tols) (snd freq_tols)) freqs
          in if list_ex id close
             then select_freq_loop obj_freq_array freq_tols invert rest
                    (freq_chans @ np_nonzero close)
             else if \<not> invert
             then Inl (ValueError ''Frequency is not present in the freq_array'')
             else select_freq_loop obj_freq_array freq_tols invert rest freq_chans))"

text \<open>The block \<^verbatim>\<open>if frequencies is not None\<close>: the new value of \<^verbatim>\<open>freq_chans\<close>.\<close>

definition select_by_frequencies ::
    "real list option \<Rightarrow> int list option \<Rightarrow> real list option \<Rightarrow> real \<times> real \<Rightarrow> bool \<Rightarrow>
     py_error + int list option" where
  "select_by_frequencies frequencies freq_chans obj_freq_array freq_tols invert =
     (case frequencies of
        None \<Rightarrow> Inr freq_chans
      | Some fs \<Rightarrow>
         (case select_freq_loop obj_freq_array freq_tols invert fs
                 (case freq_chans of None \<Rightarrow> [] | Some chans \<Rightarrow> chans) of
            Inl e \<Rightarrow> Inl e
          | Inr chans \<Rightarrow> Inr (Some chans)))"

text \<open>
  The block \<^verbatim>\<open>if freq_chans is not None\<close>: \<^verbatim>\<open>freq_inds\<close>, \<^verbatim>\<open>spw_inds\<close> and the
  selections made.
\<close>

definition select_by_freq_chans ::
    "int list option \<Rightarrow> int list option \<Rightarrow> int list option \<Rightarrow> bool \<Rightarrow>
     py_error + (int list option \<times> int list option \<times> string list)" where
  "select_by_freq_chans freq_chans obj_spw_array obj_spw_id_array invert =
     (case freq_chans of
        None \<Rightarrow> Inr (None, None, [])
      | Some chans \<Rightarrow>
         (let freq_inds = np_unique chans
          in case (case (obj_spw_array, obj_spw_id_array) of
                     (Some spw_array, Some spw_id_array) \<Rightarrow>
                       (case np_take spw_id_array freq_inds of
                          Inl e \<Rightarrow> Inl e
                        | Inr ids \<Rightarrow> Inr (Some (np_nonzero (np_isin spw_array ids invert))))
                   | _ \<Rightarrow> Inr None) of
               Inl e \<Rightarrow> Inl e
             | Inr spw_inds \<Rightarrow>
                 if invert \<and> length freq_inds = length chans
                 then Inl (ValueError ''No data matching this frequency selection exists.'')
                 else Inr (Some freq_inds, spw_inds, [''frequencies''])))"

text \<open>
  The block \<^verbatim>\<open>if spws is not None\<close>.  With an \<^verbatim>\<open>obj_spw_array\<close> that is
  \<^verbatim>\<open>None\<close>, no requested window is found in it; where the source does not raise
  for that, it goes on to index \<^verbatim>\<open>None\<close> and never returns: the model gives the
  \<^verbatim>\<open>TypeError\<close> here.
\<close>

definition select_by_spws ::
    "int list option \<Rightarrow> int list option \<Rightarrow> bool \<Rightarrow> int list option \<Rightarrow> string list \<Rightarrow>
     py_error + (int list option \<times> string list)" where
  "select_by_spws spws obj_spw_array invert spw_inds selections =
     (case spws of
        None \<Rightarrow> Inr (spw_inds, selections)
      | Some sp \<Rightarrow>
         (case obj_spw_array of
            None \<Rightarrow>
              if sp \<noteq> [] \<and> \<not> invert
              then Inl (ValueError ''SPW number is not present in the spw_array'')
              else Inl TypeError
          | Some spw_array \<Rightarrow>
              if \<not> list_all id (np_isin sp spw_array False) \<and> \<not> invert
              then Inl (ValueError ''SPW number is not present in the spw_array'')
              else
                (let found = np_nonzero (np_isin spw_array sp invert)
                 in Inr (case spw_inds of
                           None \<Rightarrow> Some found
                         | Some inds \<Rightarrow> Some (np_intersect1d found inds),
                         selections @ [''spectral windows'']))))"

text \<open>
  The block of the Jones terms and polarizations.  An item is a string or a number;
  \<open>str_eval\<close> is \<^verbatim>\<open>jstr2num\<close> or \<^verbatim>\<open>polstr2num\<close> with the object's
  \<^verbatim>\<open>x_orientation\<close> (both are outside the source files, and may raise).
\<close>

datatype pol_item = PolStr string | PolNum int

fun flx_nums_loop ::
    "(string \<Rightarrow> py_error + int) \<Rightarrow> int list \<Rightarrow> bool \<Rightarrow> pol_item list \<Rightarrow> int list \<Rightarrow>
     py_error + int list" where
  "flx_nums_loop str_eval obj_arr invert [] flx_nums = Inr flx_nums"
| "flx_nums_loop str_eval obj_arr invert (item # rest) flx_nums =
     (case (case item of PolStr s \<Rightarrow> str_eval s | PolNum n \<Rightarrow> Inr n) of
        Inl e \<Rightarrow> Inl e
      | Inr item_id \<Rightarrow>
          if item_id \<notin> set obj_arr \<and> \<not> invert
          then Inl (ValueError ''The Jones term or polarization is not present'')
          else flx_nums_loop str_eval obj_arr invert rest (flx_nums @ [item_id]))"

text \<open>
  \<open>spacing_ok\<close> is \<^verbatim>\<open>tools._test_array_constant_spacing\<close>, which is outside the
  source files; only a warning depends on it.
\<close>

definition select_by_pols ::
    "(string \<Rightarrow> py_error + int) \<Rightarrow> (string \<Rightarrow> py_error + int) \<Rightarrow> (int list \<Rightarrow> bool) \<Rightarrow>
     pol_item list option \<Rightarrow> int list option \<Rightarrow> pol_item list option \<Rightarrow> int list option \<Rightarrow>
     bool \<Rightarrow> int list option \<Rightarrow> string list \<Rightarrow>
     py_error + (warning list \<times> int list option \<times> string list)" where
  "select_by_pols jstr2num polstr2num spacing_ok polarizations obj_flex_spw_pol_array jones
       obj_flex_jones_array invert spw_inds selections =
     (if (jones \<noteq> None \<and> obj_flex_jones_array \<noteq> None) \<or>
         (polarizations \<noteq> None \<and> obj_flex_spw_pol_array \<noteq> None)
      then
        (let has_jones = (jones \<noteq> None \<and> obj_flex_jones_array \<noteq> None);
             plr_name = (if has_jones then ''jones polarization terms'' else ''polarizations'');
             obj_arr = the (if has_jones then obj_flex_jones_array else obj_flex_spw_pol_array);
             sel_arr = the (if has_jones then jones else polarizations);
             str_eval = (if has_jones then jstr2num else polstr2num)
         in case flx_nums_loop str_eval obj_arr invert sel_arr [] of
              Inl e \<Rightarrow> Inl e
            | Inr flx_nums \<Rightarrow>
               (let flx_inds = np_nonzero (np_isin obj_arr flx_nums invert);
                    inds = (case spw_inds of
                              None \<Rightarrow> flx_inds
                            | Some old \<Rightarrow> np_intersect1d flx_inds old)
                in if length inds = 0
                   then Inl (ValueError ''No data matching this polarization selection exists.'')
                   else
                     (case np_take obj_arr inds of
                        Inl e \<Rightarrow> Inl e
                      | Inr sel \<Rightarrow>
                          Inr (if \<not> spacing_ok (np_unique sel)
                               then [''Selected polarizations are not evenly spaced'']
                               else [],
                               Some inds, selections @ [plr_name]))))
      else Inr ([], spw_inds, selections))"

text \<open>
  The block \<^verbatim>\<open>if spw_inds is not None\<close>: the selected windows, the channels of the
  selected windows, and the sorted window indices.
\<close>

definition select_spw_channels ::
    "int list option \<Rightarrow> int list option \<Rightarrow> int list option \<Rightarrow> int list option \<Rightarrow>
     py_error + (int list option \<times> int list option \<times> int list option)" where
  "select_spw_channels obj_spw_array obj_spw_id_array spw_inds freq_inds =
     (case spw_inds of
        None \<Rightarrow> Inr (freq_inds, None, None)
      | Some inds \<Rightarrow>
         (case obj_spw_array of
            None \<Rightarrow> Inl TypeError
          | Some spw_array \<Rightarrow>
             (case np_take spw_array inds of
                Inl e \<Rightarrow> Inl e
              | Inr sel_spw_array \<Rightarrow>
                  if length inds = 0
                  then Inl (ValueError ''No data matching this spectral window selection exists.'')
                  else
                    Inr (case obj_spw_id_array of
                           None \<Rightarrow> freq_inds
                         | Some spw_id_array \<Rightarrow>
                            (case freq_inds of
                               None \<Rightarrow> Some (np_nonzero (np_isin spw_id_array sel_spw_array False))
                             | Some fi \<Rightarrow>
                                 Some (np_intersect1d fi
                                         (np_nonzero (np_isin spw_id_array sel_spw_array False)))),
                         Some (sorted_set inds), Some sel_spw_array))))"

text \<open>Indexing an array that may be \<^verbatim>\<open>None\<close>, as the three guarded assignments do.\<close>

definition take_opt :: "'a list option \<Rightarrow> int list \<Rightarrow> py_error + 'a list option" where
  "take_opt arr inds =
     (case arr of
        None \<Rightarrow> Inr None
      | Some a \<Rightarrow> (case np_take a inds of Inl e \<Rightarrow> Inl e | Inr sel \<Rightarrow> Inr (Some sel)))"

text \<open>
  The block \<^verbatim>\<open>if freq_inds is not None\<close>: the spacing check on the selected
  channels, its warnings, and the sorted channel indices.
\<close>

definition select_finish ::
    "real list option \<Rightarrow> real \<times> real \<Rightarrow> real list option \<Rightarrow> real \<times> real \<Rightarrow> int list option \<Rightarrow>
     bool \<Rightarrow> int list option \<Rightarrow> int list option \<Rightarrow> py_error + (warning list \<times> int list option)" where
  "select_finish obj_freq_array freq_tols obj_channel_width channel_width_tols obj_spw_id_array
       warn_freq_spacing sel_spw_array freq_inds =
     (case freq_inds of
        None \<Rightarrow> Inr ([], None)
      | Some fi \<Rightarrow>
          if length fi = 0
          then Inl (ValueError ''No data matching this frequency selection exists.'')
          else
           (case take_opt obj_channel_width fi of
              Inl e \<Rightarrow> Inl e
            | Inr sel_chan_width \<Rightarrow>
               (case take_opt obj_spw_id_array fi of
                  Inl e \<Rightarrow> Inl e
                | Inr sel_spw_id_array \<Rightarrow>
                   (case take_opt obj_freq_array fi of
                      Inl e \<Rightarrow> Inl e
                    | Inr sel_freq_array \<Rightarrow>
                       (case check_freq_spacing sel_freq_array freq_tols sel_chan_width
                               channel_width_tols sel_spw_array sel_spw_id_array False of
                          Inl e \<Rightarrow> Inl e
                        | Inr (spacing_error, chanwidth_error) \<Rightarrow>
                            Inr (if warn_freq_spacing \<and> spacing_error
                                 then [''Selected frequencies are not evenly spaced'']
                                 else if warn_freq_spacing \<and> chanwidth_error
                                 then [''Selected frequencies are not contiguous'']
                                 else [],
                                 Some (sorted_set fi)))))))"

text \<open>
  \<^verbatim>\<open>_select_freq_helper\<close>: the warnings, \<^verbatim>\<open>freq_inds\<close>, \<^verbatim>\<open>spw_inds\<close> and
  \<^verbatim>\<open>selections\<close>.
\<close>

record select_args =
  frequencies :: "real list option"
  freq_chans :: "int list option"
  obj_freq_array :: "real list option"
  freq_tols :: "real \<times> real"
  obj_channel_width :: "real list option"
  channel_width_tols :: "real \<times> real"
  spws :: "int list option"
  obj_spw_array :: "int list option"
  obj_spw_id_array :: "int list option"
  polarizations :: "pol_item list option"
  obj_flex_spw_pol_array :: "int list option"
  jones :: "pol_item list option"
  obj_flex_jones_array :: "int list option"
  warn_freq_spacing :: bool
  invert :: bool

definition select_freq_helper ::
    "(string \<Rightarrow> py_error + int) \<Rightarrow> (string \<Rightarrow> py_error + int) \<Rightarrow> (int list \<Rightarrow> bool) \<Rightarrow>
     select_args \<Rightarrow>
     py_error + (warning list \<times> int list option \<times> int list option \<times> string list)" where
  "select_freq_helper jstr2num polstr2num spacing_ok a =
     (case select_by_frequencies (frequencies a) (freq_chans a) (obj_freq_array a) (freq_tols a)
             (invert a) of
        Inl e \<Rightarrow> Inl e
      | Inr chans \<Rightarrow>
       (case select_by_freq_chans chans (obj_spw_array a) (obj_spw_id_array a) (invert a) of
          Inl e \<Rightarrow> Inl e
        | Inr (freq_inds, spw_inds, selections) \<Rightarrow>
         (case select_by_spws (spws a) (obj_spw_array a) (invert a) spw_inds selections of
            Inl e \<Rightarrow> Inl e
          | Inr (spw_inds, selections) \<Rightarrow>
           (case select_by_pols jstr2num polstr2num spacing_ok (polarizations a)
                   (obj_flex_spw_pol_array a) (jones a) (obj_flex_jones_array a) (invert a)
                   spw_inds selections of
              Inl e \<Rightarrow> Inl e
            | Inr (pol_warnings, spw_inds, selections) \<Rightarrow>
             (case select_spw_channels (obj_spw_array a) (obj_spw_id_array a) spw_inds freq_inds of
                Inl e \<Rightarrow> Inl e
              | Inr (freq_inds, spw_inds, sel_spw_array) \<Rightarrow>
               (case select_finish (obj_freq_array a) (freq_tols a) (obj_channel_width a)
                       (channel_width_tols a) (obj_spw_id_array a) (warn_freq_spacing a)
                       sel_spw_array freq_inds of
                  Inl e \<Rightarrow> Inl e
                | Inr (spacing_warnings, freq_inds) \<Rightarrow>
                    Inr (pol_warnings @ spacing_warnings, freq_inds, spw_inds, selections)))))))"

section \<open>utils/frequency.py: the sort order\<close>

text \<open>
  \<^verbatim>\<open>spw_order\<close> and \<^verbatim>\<open>channel_order\<close> are a string or an index array,
  \<^verbatim>\<open>select_spw\<close> a number or an array of numbers.
\<close>

datatype order_arg = OrderStr string | OrderIdx "int list"

datatype select_arg = SelectInt int | SelectList "int list"

text \<open>
  The test of an index array: \<^verbatim>\<open>a.size == n\<close> and
  \<^verbatim>\<open>np.all(np.sort(a) == np.arange(n))\<close>.
\<close>

definition valid_index_array :: "int list \<Rightarrow> nat \<Rightarrow> bool" where
  "valid_index_array a n = (length a = n \<and> sort a = map int [0..<n])"

text \<open>\<^verbatim>\<open>np.all(index_array[1:] > index_array[:-1])\<close>.\<close>

definition strictly_ascending :: "nat list \<Rightarrow> bool" where
  "strictly_ascending x = list_all (\<lambda>(a, b). b < a) (zip (tl x) (butlast x))"

text \<open>
  \<^verbatim>\<open>np.argsort\<close> is a parameter of the model, once for the window numbers and once
  for the frequencies: numpy's default sort promises no order among equal keys, so the
  order that it returns is known only up to the ties.  What is known of it: it returns
  a permutation of the indices of its argument, the keys ascending along it, with
  \<^verbatim>\<open>nan\<close> (here \<open>None\<close>) after every number.
\<close>

definition nan_le :: "real option \<Rightarrow> real option \<Rightarrow> bool" where
  "nan_le a b =
     (case b of
        None \<Rightarrow> True
      | Some y \<Rightarrow> (case a of None \<Rightarrow> False | Some x \<Rightarrow> x \<le> y))"

definition is_argsort :: "('a \<Rightarrow> 'a \<Rightarrow> bool) \<Rightarrow> 'a list \<Rightarrow> nat list \<Rightarrow> bool" where
  "is_argsort le keys p =
     (mset p = mset [0..<length keys] \<and> sorted_wrt (\<lambda>i j. le (keys ! i) (keys ! j)) p)"


text \<open>
  One \<^verbatim>\<open>argsort\<close> that meets this specification, for running the model: the
  stable one, which keeps equal keys in the order of their indices.
\<close>

definition stable_argsort_int :: "int list \<Rightarrow> nat list" where
  "stable_argsort_int keys = sort_key (\<lambda>i. keys ! i) [0..<length keys]"

definition stable_argsort_float :: "real option list \<Rightarrow> nat list" where
  "stable_argsort_float keys =
     sort_key (\<lambda>i. the (keys ! i))
       (filter (\<lambda>i. \<not> Option.is_none (keys ! i)) [0..<length keys]) @
     filter (\<lambda>i. Option.is_none (keys ! i)) [0..<length keys]"

text \<open>
  \<^verbatim>\<open>np.median\<close>; of an empty array it is \<^verbatim>\<open>nan\<close>, here \<open>None\<close> (the
  \<^verbatim>\<open>RuntimeWarning\<close> that numpy gives with it is not among the warnings of the
  model, which are those of the helper itself).
\<close>

definition np_median :: "real list \<Rightarrow> real option" where
  "np_median xs =
     (if xs = [] then None
      else (let s = sort xs; n = length xs
            in Some (if odd n then s ! (n div 2)
                     else (s ! (n div 2 - 1) + s ! (n div 2)) / 2)))"

text \<open>A list of results, stopping at the first error.\<close>

fun sequence_err :: "(py_error + 'a) list \<Rightarrow> py_error + 'a list" where
  "sequence_err [] = Inr []"
| "sequence_err (r # rs) =
     (case r of
        Inl e \<Rightarrow> Inl e
      | Inr x \<Rightarrow> (case sequence_err rs of Inl e \<Rightarrow> Inl e | Inr xs \<Rightarrow> Inr (x # xs)))"

text \<open>
  \<^verbatim>\<open>array[mask] = values\<close>: the entries where the mask is true take the values in
  turn.  With \<^verbatim>\<open>np.argsort\<close> returning a permutation, the values are those of
  \<^verbatim>\<open>array[mask]\<close> in another order, as many as the true entries of the mask.
\<close>

fun mask_assign :: "'a list \<Rightarrow> bool list \<Rightarrow> 'a list \<Rightarrow> 'a list" where
  "mask_assign (x # xs) (True # bs) (v # vs) = v # mask_assign xs bs vs"
| "mask_assign (x # xs) (False # bs) vs = x # mask_assign xs bs vs"
| "mask_assign xs bs vs = xs"

text \<open>
  The order of the windows, from \<^verbatim>\<open>spw_order\<close>: a tested index array, or the
  order by window number or by median frequency, flipped for a leading minus sign.
\<close>

definition spw_order_indices ::
    "(int list \<Rightarrow> nat list) \<Rightarrow> (real option list \<Rightarrow> nat list) \<Rightarrow>
     nat \<Rightarrow> real list \<Rightarrow> int list \<Rightarrow> int list \<Rightarrow> order_arg \<Rightarrow> py_error + nat list" where
  "spw_order_indices argsort_int argsort_float n_spws temp_freqs spw_array temp_spws spw_order =
     (case spw_order of
        OrderIdx order \<Rightarrow>
          if \<not> valid_index_array order n_spws
          then Inl (ValueError ''Index array for spw_order must contain all indicies'')
          else Inr (map nat order)
      | OrderStr s \<Rightarrow>
          if s \<notin> set [''number'', ''freq'', ''-number'', ''-freq'']
          then Inl (ValueError ''spw_order can only be one of number, -number, freq, -freq'')
          else if 1 < n_spws
          then
            (case (if str_in ''number'' s then Inr (argsort_int spw_array)
                   else
                     (case sequence_err
                             (map (\<lambda>idx. index_mask temp_freqs (Mask (map (\<lambda>x. x = idx) temp_spws)))
                                spw_array) of
                        Inl e \<Rightarrow> Inl e
                      | Inr windows \<Rightarrow> Inr (argsort_float (map np_median windows)))) of
               Inl e \<Rightarrow> Inl e
             | Inr order \<Rightarrow> Inr (if hd s = CHR ''-'' then rev order else order))
          else Inr [0..<n_spws])"

text \<open>
  The first sort: the channels of each window, the windows taken in their new order.
  \<^verbatim>\<open>np.concatenate\<close> of no array at all raises a \<^verbatim>\<open>ValueError\<close>.
\<close>

definition apply_spw_order ::
    "nat list \<Rightarrow> real list \<Rightarrow> int list \<Rightarrow> int list \<Rightarrow> nat list \<Rightarrow>
     py_error + (nat list \<times> real list \<times> int list)" where
  "apply_spw_order index_array temp_freqs temp_spws spw_array order =
     (case np_take spw_array (map int order) of
        Inl e \<Rightarrow> Inl e
      | Inr windows \<Rightarrow>
         (case sequence_err
                 (map (\<lambda>spw. index_mask index_array (Mask (map (\<lambda>x. x = spw) temp_spws))) windows) of
            Inl e \<Rightarrow> Inl e
          | Inr parts \<Rightarrow>
              if parts = [] then Inl (ValueError ''need at least one array to concatenate'')
              else
               (case np_take temp_freqs (map int (concat parts)) of
                  Inl e \<Rightarrow> Inl e
                | Inr freqs \<Rightarrow>
                   (case np_take temp_spws (map int (concat parts)) of
                      Inl e \<Rightarrow> Inl e
                    | Inr spws' \<Rightarrow> Inr (concat parts, freqs, spws')))))"

text \<open>
  The loop over the windows that sorts the channels of a window by frequency.
  \<open>sort_spw\<close> is the dictionary of the source, as a function of the window.
\<close>

fun channel_sort_loop ::
    "(real option list \<Rightarrow> nat list) \<Rightarrow> bool \<Rightarrow> (int \<Rightarrow> bool) \<Rightarrow> real list \<Rightarrow> int list \<Rightarrow>
     int list \<Rightarrow> nat list \<Rightarrow> py_error + nat list" where
  "channel_sort_loop argsort_float descending sort_spw temp_freqs temp_spws [] index_array =
     Inr index_array"
| "channel_sort_loop argsort_float descending sort_spw temp_freqs temp_spws (idx # rest)
       index_array =
     (if sort_spw idx
      then
        (case index_mask index_array (Mask (map (\<lambda>x. x = idx) temp_spws)) of
           Inl e \<Rightarrow> Inl e
         | Inr subsort_order \<Rightarrow>
            (case index_mask temp_freqs (Mask (map (\<lambda>x. x = idx) temp_spws)) of
               Inl e \<Rightarrow> Inl e
             | Inr window_freqs \<Rightarrow>
                (case np_take subsort_order (map int (argsort_float (map Some window_freqs))) of
                   Inl e \<Rightarrow> Inl e
                 | Inr sorted_order \<Rightarrow>
                     channel_sort_loop argsort_float descending sort_spw temp_freqs temp_spws rest
                       (mask_assign index_array (map (\<lambda>x. x = idx) temp_spws)
                          (if descending then rev sorted_order else sorted_order)))))
      else channel_sort_loop argsort_float descending sort_spw temp_freqs temp_spws rest
             index_array)"

text \<open>The block \<^verbatim>\<open>if channel_order is not None\<close> of the branch without an index array.\<close>

definition channel_order_block ::
    "(real option list \<Rightarrow> nat list) \<Rightarrow> order_arg option \<Rightarrow> (int \<Rightarrow> bool) \<Rightarrow> int list \<Rightarrow>
     real list \<Rightarrow> int list \<Rightarrow> nat list \<Rightarrow> py_error + nat list" where
  "channel_order_block argsort_float channel_order sort_spw spw_array temp_freqs temp_spws
       index_array =
     (case channel_order of
        Some (OrderStr s) \<Rightarrow>
          if s \<notin> set [''freq'', ''-freq'']
          then Inl (ValueError ''channel_order can only be one of freq or -freq'')
          else channel_sort_loop argsort_float (hd s = CHR ''-'') sort_spw temp_freqs temp_spws
                 spw_array index_array
      | _ \<Rightarrow> Inr index_array)"

text \<open>
  The body of \<^verbatim>\<open>_sort_freq_helper\<close> between its first \<^verbatim>\<open>return\<close> and its last
  test: the warnings, \<^verbatim>\<open>index_array\<close> as it stands where the body ends, and whether
  the body has ended with the \<^verbatim>\<open>return\<close> of its own (a \<^verbatim>\<open>select_spw\<close> without a
  \<^verbatim>\<open>channel_order\<close>; \<^verbatim>\<open>index_array\<close> is \<^verbatim>\<open>np.arange(Nfreqs)\<close> there).
\<close>

definition sort_freq_index ::
    "(int list \<Rightarrow> nat list) \<Rightarrow> (real option list \<Rightarrow> nat list) \<Rightarrow>
     nat \<Rightarrow> real list \<Rightarrow> nat \<Rightarrow> int list \<Rightarrow> int list \<Rightarrow> order_arg option \<Rightarrow> order_arg option \<Rightarrow>
     select_arg option \<Rightarrow> py_error + (warning list \<times> nat list \<times> bool)" where
  "sort_freq_index argsort_int argsort_float n_freqs freq_array n_spws spw_array
       flex_spw_id_array spw_order channel_order select_spw =
     (case channel_order of
        Some (OrderIdx order) \<Rightarrow>
          if \<not> valid_index_array order n_freqs
          then Inl (ValueError ''Index array for channel_order must contain all indicies'')
          else Inr ((if select_spw \<noteq> None
                     then [''The select_spw argument is ignored (channel_order is an array)'']
                     else []) @
                    (if spw_order \<noteq> None
                     then [''The spw_order argument is ignored (channel_order is an array)'']
                     else []),
                    map nat order, False)
      | _ \<Rightarrow>
         (case select_spw of
            Some sel \<Rightarrow>
              if channel_order = None
              then Inr ((if spw_order \<noteq> None
                         then [''The spw_order argument is ignored (select_spw is given)'']
                         else []) @
                        [''Specifying select_spw without providing channel_order''],
                        [0..<n_freqs], True)
              else
               (case channel_order_block argsort_float channel_order
                       (case sel of SelectList l \<Rightarrow> (\<lambda>idx. idx \<in> set l)
                                  | SelectInt k \<Rightarrow> (\<lambda>idx. idx = k))
                       spw_array freq_array flex_spw_id_array [0..<n_freqs] of
                  Inl e \<Rightarrow> Inl e
                | Inr index_array \<Rightarrow>
                    Inr (if spw_order \<noteq> None
                         then [''The spw_order argument is ignored (select_spw is given)'']
                         else [],
                         index_array, False))
          | None \<Rightarrow>
             (case spw_order of
                Some order \<Rightarrow>
                 (case spw_order_indices argsort_int argsort_float n_spws freq_array spw_array
                         flex_spw_id_array order of
                    Inl e \<Rightarrow> Inl e
                  | Inr indices \<Rightarrow>
                     (case apply_spw_order [0..<n_freqs] freq_array flex_spw_id_array spw_array
                             indices of
                        Inl e \<Rightarrow> Inl e
                      | Inr (index_array, temp_freqs, temp_spws) \<Rightarrow>
                         (case channel_order_block argsort_float channel_order
                                 (\<lambda>idx. channel_order \<noteq> None)
                                 spw_array temp_freqs temp_spws index_array of
                            Inl e \<Rightarrow> Inl e
                          | Inr index_array' \<Rightarrow> Inr ([], index_array', False))))
              | None \<Rightarrow>
                 (case channel_order_block argsort_float channel_order
                         (\<lambda>idx. channel_order \<noteq> None)
                         spw_array freq_array flex_spw_id_array [0..<n_freqs] of
                    Inl e \<Rightarrow> Inl e
                  | Inr index_array \<Rightarrow> Inr ([], index_array, False)))))"

text \<open>
  \<^verbatim>\<open>_sort_freq_helper\<close>: the warnings and what is returned, \<open>None\<close> or the index
  array.
\<close>

definition sort_freq_helper ::
    "(int list \<Rightarrow> nat list) \<Rightarrow> (real option list \<Rightarrow> nat list) \<Rightarrow>
     nat \<Rightarrow> real list \<Rightarrow> nat \<Rightarrow> int list \<Rightarrow> int list \<Rightarrow> order_arg option \<Rightarrow> order_arg option \<Rightarrow>
     select_arg option \<Rightarrow> py_error + (warning list \<times> nat list option)" where
  "sort_freq_helper argsort_int argsort_float n_freqs freq_array n_spws spw_array
       flex_spw_id_array spw_order channel_order select_spw =
     (if spw_order = None \<and> channel_order = None
      then Inr ([''Not specifying either spw_order or channel_order''], None)
      else
        (case sort_freq_index argsort_int argsort_float n_freqs freq_array n_spws spw_array
                flex_spw_id_array spw_order channel_order select_spw of
           Inl e \<Rightarrow> Inl e
         | Inr (ws, index_array, returned) \<Rightarrow>
             if returned then Inr (ws, None)
             else if strictly_ascending index_array then Inr (ws, None)
             else Inr (ws, Some index_array)))"

section \<open>Theorems\<close>

lemma supported_frames_eq:
  "supported_frames =
     [(''fk5'', 2000), (''gcrs'', 2000), (''fk4'', 1950), (''fk4'', 1979), (''icrs'', 2000)]"
  by (simp add: supported_frames_def COORD_PYUVDATA2CASA_DICT_def)

text \<open>
  Claim C2.  For every (frame, epoch) pair of the supported set, the forward translation
  succeeds without a warning with some CASA reference code, and the inverse translation
  of that code returns exactly the pair it started from, whatever the two
  \<^verbatim>\<open>raise_error\<close> flags are.
\<close>

theorem frame_round_trip:
  "\<forall>(frame, epoch) \<in> set supported_frames.
     \<exists>ref_name.
       parse_pyuvdata_frame_ref frame (Some epoch) r1 = Inr ([], Some ref_name) \<and>
       parse_casa_frame_ref ref_name r2 = Inr ([], Some frame, Some epoch)"
  unfolding supported_frames_eq
  by (simp add: parse_pyuvdata_frame_ref_def parse_casa_frame_ref_def reverse_dict_def
      COORD_PYUVDATA2CASA_DICT_def)

theorem frame_round_trip_witness:
  "(''fk4'', 1979) \<in> set supported_frames \<and>
   parse_pyuvdata_frame_ref ''fk4'' (Some 1979) True = Inr ([], Some ''B1950_VLA'') \<and>
   parse_casa_frame_ref ''B1950_VLA'' True = Inr ([], Some ''fk4'', Some 1979)"
  using frame_round_trip [of True True]
  by (simp add: supported_frames_eq parse_pyuvdata_frame_ref_def parse_casa_frame_ref_def
      reverse_dict_def COORD_PYUVDATA2CASA_DICT_def)

subsection \<open>The contiguity check\<close>

text \<open>The count of the source is the number of the spec's transition points.\<close>

lemma n_breaks_card: "n_breaks x = card (transition_points x)"
proof -
  have "{i. i < length (zip (tl x) (butlast x)) \<and>
            (case zip (tl x) (butlast x) ! i of (a, b) \<Rightarrow> a \<noteq> b)}
        = transition_points x"
    by (auto simp: transition_points_def nth_tl nth_butlast)
  then show ?thesis
    by (simp add: n_breaks_def length_filter_conv_card)
qed

lemma np_unique_eq_iff: "np_unique a = np_unique b \<longleftrightarrow> set a = set b"
proof
  assume "np_unique a = np_unique b"
  then have "set (np_unique a) = set (np_unique b)" by simp
  then show "set a = set b" by (simp add: np_unique_def)
next
  assume "set a = set b"
  then show "np_unique a = np_unique b"
    unfolding np_unique_def
    by (intro sorted_distinct_set_unique) simp_all
qed

lemma distinct_all_eq_short:
  assumes "distinct b" "list_all (\<lambda>y. c = y) b"
  shows "length b \<le> 1"
proof (cases b)
  case Nil
  then show ?thesis by simp
next
  case (Cons y ys)
  with assms show ?thesis by (cases ys) auto
qed

lemma np_all_eq_unique_differs:
  assumes "set flex \<noteq> set spw" "flex \<noteq> []" "spw \<noteq> []"
  shows "np_all_eq (np_unique flex) (np_unique spw) \<noteq> Some True"
proof -
  let ?a = "np_unique flex" and ?b = "np_unique spw"
  have ne: "?a \<noteq> ?b" using assms(1) by (simp add: np_unique_eq_iff)
  have da: "distinct ?a" and db: "distinct ?b" by (simp_all add: np_unique_def)
  have la: "?a \<noteq> []" and lb: "?b \<noteq> []"
    using assms(2,3) by (auto simp: np_unique_def dest: arg_cong[where f=set])
  show ?thesis
  proof (cases "length ?a = length ?b")
    case True
    then show ?thesis using ne by (simp add: np_all_eq_def)
  next
    case False
    have A: "\<not> list_all (\<lambda>y. hd ?a = y) ?b" if "length ?a = 1"
      using distinct_all_eq_short[OF db, of "hd ?a"] that False lb
      by (cases ?b) auto
    have B: "\<not> list_all (\<lambda>x. x = hd ?b) ?a" if "length ?b = 1"
    proof
      assume "list_all (\<lambda>x. x = hd ?b) ?a"
      then have "list_all (\<lambda>x. hd ?b = x) ?a" by (simp add: list_all_iff eq_commute)
      from distinct_all_eq_short[OF da this] that False la show False
        by (cases ?a) auto
    qed
    show ?thesis using False A B by (auto simp: np_all_eq_def)
  qed
qed

lemma contig_consistent:
  assumes "set flex = set spw"
  shows "check_flex_spw_contiguous (Some spw) (Some flex) =
    (if n_breaks flex + 1 = length spw then Inr ()
     else Inl (ValueError ''Channels from different spectral windows are interspersed''))"
proof -
  have "np_unique flex = np_unique spw" using assms by (simp add: np_unique_eq_iff)
  then show ?thesis by (simp add: check_flex_spw_contiguous_def np_all_eq_def)
qed

text \<open>
  Claim C6, as stated, fails: the sequence \<open>[0,0,1,1,3,3]\<close> has exactly two transition
  points, one less than the three windows of \<open>spw_array = [0,1,2]\<close>, and the check
  still does not pass, because the assertion on the window ids comes first.
\<close>

theorem contiguity_iff_counterexample:
  "int (card (transition_points [0, 0, 1, 1, 3, 3])) = int (length [0, 1, 2::int]) - 1 \<and>
   check_flex_spw_contiguous (Some [0, 1, 2]) (Some [0, 0, 1, 1, 3, 3]) =
      Inl (AssertionError ''entries in flex_spw_id_array that are not in spw_array'')"
  by (simp add: n_breaks_card [symmetric] check_flex_spw_contiguous_def np_all_eq_def
      np_unique_def n_breaks_def)

text \<open>
  Claim C6, amended.  When the window ids that occur in \<open>flex_spw_id_array\<close> are those
  of \<open>spw_array\<close>, the check passes if and only if the sequence has exactly
  (number of windows - 1) transition points, and raises the \<^verbatim>\<open>ValueError\<close> otherwise.
  When the two non-empty arrays do not hold the same ids, the check raises at the
  assertion on the ids (or in its comparison) before any transition is counted.  In
  particular \<open>[0,0,0,1,1,2,2,2]\<close> with \<open>spw_array = [0,1,2]\<close> passes, and
  \<open>[0,1,0,1]\<close> with the same \<open>spw_array\<close> raises, in the comparison of the ids.
\<close>

theorem contiguity_check:
  "(set flex = set spw \<longrightarrow>
      (check_flex_spw_contiguous (Some spw) (Some flex) = Inr () \<longleftrightarrow>
         int (card (transition_points flex)) = int (length spw) - 1) \<and>
      (check_flex_spw_contiguous (Some spw) (Some flex) \<noteq> Inr () \<longrightarrow>
         check_flex_spw_contiguous (Some spw) (Some flex) =
           Inl (ValueError ''Channels from different spectral windows are interspersed''))) \<and>
   (set flex \<noteq> set spw \<longrightarrow> flex \<noteq> [] \<longrightarrow> spw \<noteq> [] \<longrightarrow>
      check_flex_spw_contiguous (Some spw) (Some flex) \<in>
        {Inl (AssertionError ''entries in flex_spw_id_array that are not in spw_array''),
         Inl BroadcastError}) \<and>
   check_flex_spw_contiguous (Some [0, 1, 2]) (Some [0, 0, 0, 1, 1, 2, 2, 2]) = Inr () \<and>
   check_flex_spw_contiguous (Some [0, 1, 2]) (Some [0, 1, 0, 1]) = Inl BroadcastError"
proof (intro conjI impI)
  assume eq: "set flex = set spw"
  show "check_flex_spw_contiguous (Some spw) (Some flex) = Inr () \<longleftrightarrow>
         int (card (transition_points flex)) = int (length spw) - 1"
    unfolding contig_consistent[OF eq] n_breaks_card by auto
  show "check_flex_spw_contiguous (Some spw) (Some flex) =
           Inl (ValueError ''Channels from different spectral windows are interspersed'')"
    if "check_flex_spw_contiguous (Some spw) (Some flex) \<noteq> Inr ()"
    using that unfolding contig_consistent[OF eq] by (simp split: if_splits)
next
  assume "set flex \<noteq> set spw" "flex \<noteq> []" "spw \<noteq> []"
  from np_all_eq_unique_differs[OF this]
  show "check_flex_spw_contiguous (Some spw) (Some flex) \<in>
        {Inl (AssertionError ''entries in flex_spw_id_array that are not in spw_array''),
         Inl BroadcastError}"
    by (auto simp: check_flex_spw_contiguous_def split: option.splits bool.splits)
next
  show "check_flex_spw_contiguous (Some [0, 1, 2]) (Some [0, 0, 0, 1, 1, 2, 2, 2]) = Inr ()"
    by (simp add: check_flex_spw_contiguous_def np_all_eq_def np_unique_def n_breaks_def)
  show "check_flex_spw_contiguous (Some [0, 1, 2]) (Some [0, 1, 0, 1]) = Inl BroadcastError"
    by (simp add: check_flex_spw_contiguous_def np_all_eq_def np_unique_def n_breaks_def)
qed

theorem contiguity_check_witness:
  "set [0, 1, 1, 0::int] = set [0, 1] \<and>
   check_flex_spw_contiguous (Some [0, 1]) (Some [0, 1, 1, 0]) =
      Inl (ValueError ''Channels from different spectral windows are interspersed'') \<and>
   int (card (transition_points [0, 1, 1, 0])) \<noteq> int (length [0, 1::int]) - 1 \<and>
   set [0, 0, 5::int] \<noteq> set [0, 1] \<and>
   check_flex_spw_contiguous (Some [0, 1]) (Some [0, 0, 5]) =
      Inl (AssertionError ''entries in flex_spw_id_array that are not in spw_array'')"
  using contiguity_check [of "[0, 1, 1, 0]" "[0, 1]"] contiguity_check [of "[0, 0, 5]" "[0, 1]"]
  by (simp add: check_flex_spw_contiguous_def np_all_eq_def np_unique_def n_breaks_def)

subsection \<open>The spacing check\<close>

lemmas spacing_defs = check_freq_spacing_def check_flex_spw_contiguous_def spacing_window_def
  index_mask_def np_diff_def test_array_constant_def np_isclose_def np_allclose_def np_mean_def
  default_channel_width_tols_def

lemma check_freq_spacing_raise:
  "check_freq_spacing fa ft cw cwt spw flex True =
     (case check_freq_spacing fa ft cw cwt spw flex False of
        Inl e \<Rightarrow> Inl e
      | Inr (spacing_error, chanwidth_error) \<Rightarrow>
          if spacing_error then Inl (ValueError ''The frequencies are not evenly spaced'')
          else if chanwidth_error
          then Inl (ValueError ''The frequencies are separated by more than their channel width'')
          else Inr (False, False))"
  by (simp add: check_freq_spacing_def split: sum.splits prod.splits)

lemma spacing_even:
  assumes "0 \<le> rtol" "0 \<le> atol"
  shows "check_freq_spacing (Some [100000000, 101000000, 102000000, 103000000]) (rtol, atol)
           (Some [1000000, 1000000, 1000000, 1000000]) default_channel_width_tols None None r
         = Inr (False, False)"
  using assms by (simp add: spacing_defs)

lemma spacing_gap:
  assumes "0 \<le> rtol" "0 \<le> atol" "atol + rtol * 2000000 < 1000000"
  shows "check_freq_spacing (Some [100000000, 101000000, 103000000, 104000000]) (rtol, atol)
           None default_channel_width_tols None None False = Inr (True, False)"
    and "check_freq_spacing (Some [100000000, 101000000, 103000000, 104000000]) (rtol, atol)
           (Some [1000000, 1000000, 1000000, 1000000]) default_channel_width_tols None None False
         = Inr (True, True)"
  using assms by (simp_all add: spacing_defs)

lemma spacing_width:
  assumes "0 \<le> rtol" "0 \<le> atol"
  shows "check_freq_spacing (Some [100000000, 101000000, 102000000]) (rtol, atol)
           (Some [2000000, 2000000, 2000000]) default_channel_width_tols None None False
         = Inr (False, True)"
  using assms by (simp add: spacing_defs)

text \<open>
  Claim C7.  The check computes two flags, and each of the four pairs of values occurs.
  With \<^verbatim>\<open>raise_errors=True\<close> it returns what the call with
  \<^verbatim>\<open>raise_errors=False\<close> returns, except that it raises a \<^verbatim>\<open>ValueError\<close>
  exactly when that call returns a flag that is set (the spacing flag first).  For
  tolerances \<open>(rtol, atol)\<close> on the frequencies that are not negative, and the
  default tolerances on the channel width: \<open>[100,101,102,103]\<close> MHz with width 1 MHz
  give \<open>(False, False)\<close>, raising or not; \<open>[100,101,102]\<close> MHz with the declared
  width 2 MHz give \<open>(False, True)\<close>; and \<open>[100,101,103,104]\<close> MHz set the spacing
  flag when the tolerance is below the 1 MHz by which the spacings differ.
\<close>

theorem freq_spacing_flags:
  "check_freq_spacing fa ft cw cwt spw flex True =
     (case check_freq_spacing fa ft cw cwt spw flex False of
        Inl e \<Rightarrow> Inl e
      | Inr (spacing_error, chanwidth_error) \<Rightarrow>
          if spacing_error then Inl (ValueError ''The frequencies are not evenly spaced'')
          else if chanwidth_error
          then Inl (ValueError ''The frequencies are separated by more than their channel width'')
          else Inr (False, False)) \<and>
   (0 \<le> rtol \<and> 0 \<le> atol \<longrightarrow>
      check_freq_spacing (Some [100000000, 101000000, 102000000, 103000000]) (rtol, atol)
        (Some [1000000, 1000000, 1000000, 1000000]) default_channel_width_tols None None r
        = Inr (False, False) \<and>
      check_freq_spacing (Some [100000000, 101000000, 102000000]) (rtol, atol)
        (Some [2000000, 2000000, 2000000]) default_channel_width_tols None None False
        = Inr (False, True)) \<and>
   (0 \<le> rtol \<and> 0 \<le> atol \<and> atol + rtol * 2000000 < 1000000 \<longrightarrow>
      check_freq_spacing (Some [100000000, 101000000, 103000000, 104000000]) (rtol, atol)
        None default_channel_width_tols None None False = Inr (True, False) \<and>
      check_freq_spacing (Some [100000000, 101000000, 103000000, 104000000]) (rtol, atol)
        (Some [1000000, 1000000, 1000000, 1000000]) default_channel_width_tols None None False
        = Inr (True, True))"
  using check_freq_spacing_raise spacing_even spacing_gap spacing_width by blast

theorem freq_spacing_flags_witness:
  "(0::real) \<le> 0 \<and> (0::real) \<le> 1 / 1000 \<and> 1 / 1000 + 0 * 2000000 < (1000000::real) \<and>
   check_freq_spacing (Some [100000000, 101000000, 102000000, 103000000]) (0, 1 / 1000)
     (Some [1000000, 1000000, 1000000, 1000000]) default_channel_width_tols None None True
     = Inr (False, False) \<and>
   check_freq_spacing (Some [100000000, 101000000, 102000000]) (0, 1 / 1000)
     (Some [2000000, 2000000, 2000000]) default_channel_width_tols None None False
     = Inr (False, True) \<and>
   check_freq_spacing (Some [100000000, 101000000, 102000000]) (0, 1 / 1000)
     (Some [2000000, 2000000, 2000000]) default_channel_width_tols None None True
     = Inl (ValueError ''The frequencies are separated by more than their channel width'') \<and>
   check_freq_spacing (Some [100000000, 101000000, 103000000, 104000000]) (0, 1 / 1000)
     None default_channel_width_tols None None False = Inr (True, False) \<and>
   check_freq_spacing (Some [100000000, 101000000, 103000000, 104000000]) (0, 1 / 1000)
     (Some [1000000, 1000000, 1000000, 1000000]) default_channel_width_tols None None False
     = Inr (True, True)"
  using freq_spacing_flags [of "Some [100000000, 101000000, 102000000]" "(0, 1 / 1000)"
      "Some [2000000, 2000000, 2000000]" default_channel_width_tols None None 0 "1 / 1000" True]
  by simp

subsection \<open>The rows of the calibration main table\<close>

text \<open>
  Claim C1 at a bandpass object with one time, one spectral window of four channels and
  the single antenna 0: \<^verbatim>\<open>write_ms_cal\<close> adds \<open>Ntimes * Nfreqs * Nants_casa = 4\<close>
  rows, not the \<open>Ntimes * Nspws * Nants_casa = 1\<close> of the claim, while the columns it
  then writes over all the rows have one entry.
\<close>

theorem write_ms_cal_rows_bandpass:
  "write_ms_cal_layout
     \<lparr>cal_type = ''gain'', wide_band = False, Ntimes = 1, Nfreqs = 4, Nspws = 1,
      antenna_numbers = [0]\<rparr> False False
   = Inr \<lparr>casa_subtype = ''B Jones'', rows_added = 4, ANTENNA1 = [0],
          SPECTRAL_WINDOW_ID = [0]\<rparr>"
  by (simp add: write_ms_cal_layout_def np_tile_def np_repeat_def np_arange_def)

subsection \<open>The deduplicated time index\<close>

text \<open>
  Claim C3 at four rows whose times are two pairs half a millisecond apart, with a
  tolerance of one millisecond (given in days): the fourth row is close to the third
  key of \<^verbatim>\<open>time_dict\<close> and gets that key's position 2, not its index 1, although
  only two times were counted; 2 is not an index into arrays of length
  \<open>Ntimes = 2\<close>.
\<close>

theorem read_time_index_out_of_range:
  "row_timeidx_map (read_time_index (0, 1 / 86400000)
        [5000000000, 5000000000.0005, 5000000010, 5000000010.0005]) = [0, 0, 1, 2] \<and>
   time_count (read_time_index (0, 1 / 86400000)
        [5000000000, 5000000000.0005, 5000000010, 5000000010.0005]) = 2"
  by (simp add: read_time_index_def time_index_step_def np_isclose_def first_true_def)

subsection \<open>The HISTORY writer\<close>

lemma splitlines_mangled:
  "splitlines (text_of_lines [''Begin measurement set history'',
     ''APP_PARAMS;CLI_COMMAND;APPLICATION;MESSAGE;OBJECT_ID;OBSERVATION_ID;ORIGIN;PRIORITY;TIME'',
     ''p;c;casa;imported;0;-1;im;INFO;4914651200.5'',
     ''a mangled row'',
     ''End measurement set history.'']) =
   [''Begin measurement set history'',
    ''APP_PARAMS;CLI_COMMAND;APPLICATION;MESSAGE;OBJECT_ID;OBSERVATION_ID;ORIGIN;PRIORITY;TIME'',
    ''p;c;casa;imported;0;-1;im;INFO;4914651200.5'',
    ''a mangled row'',
    ''End measurement set history.'']"
  by (simp add: splitlines_def text_of_lines_def line_boundary_def)

lemma header_in_mangled:
  "str_in ''APP_PARAMS;CLI_COMMAND;APPLICATION;MESSAGE''
     (text_of_lines [''Begin measurement set history'',
       ''APP_PARAMS;CLI_COMMAND;APPLICATION;MESSAGE;OBJECT_ID;OBSERVATION_ID;ORIGIN;PRIORITY;TIME'',
       ''p;c;casa;imported;0;-1;im;INFO;4914651200.5'',
       ''a mangled row'',
       ''End measurement set history.''])"
  by (simp add: text_of_lines_def)

lemma decimal_real_time: "decimal_real ''4914651200.5'' = Some 4914651200.5"
  by (simp add: decimal_real_def decimal_int_def decimal_nat_def digit_val_def)

lemma enumerate_list_5:
  "enumerate_list [a, b, c, d, e] = [(0, a), (1, b), (2, c), (3, d), (4, e)]"
  by (simp add: enumerate_list_def upt_rec)

text \<open>
  Claim C4 at a history whose structured block holds one well-formed row of nine fields
  followed by a row of one field.  The writer warns and records the five lines of the
  history one row per line, attributed to pyuvdata and stamped with the clock; but the
  row parsed from the block before the mangled one stays in the table, in front of
  them, with the application, origin and time read from the block.
\<close>

theorem write_ms_history_mangled_keeps_parsed_row:
  "write_ms_history decimal_int decimal_real clock
     (text_of_lines [''Begin measurement set history'',
       ''APP_PARAMS;CLI_COMMAND;APPLICATION;MESSAGE;OBJECT_ID;OBSERVATION_ID;ORIGIN;PRIORITY;TIME'',
       ''p;c;casa;imported;0;-1;im;INFO;4914651200.5'',
       ''a mangled row'',
       ''End measurement set history.'']) =
   Inr ([''Failed to parse prior history of MS file''],
        [\<lparr>APP_PARAMS = ''p'', CLI_COMMAND = ''c'', APPLICATION = ''casa'',
          MESSAGE = ''imported'', OBJECT_ID = 0, OBSERVATION_ID = - 1,
          ORIGIN = ''im'', PRIORITY = ''INFO'', TIME = 4914651200.5\<rparr>,
         pyuvdata_row (clock 0) ''Begin measurement set history'',
         pyuvdata_row (clock 1)
           ''APP_PARAMS;CLI_COMMAND;APPLICATION;MESSAGE;OBJECT_ID;OBSERVATION_ID;ORIGIN;PRIORITY;TIME'',
         pyuvdata_row (clock 2) ''p;c;casa;imported;0;-1;im;INFO;4914651200.5'',
         pyuvdata_row (clock 3) ''a mangled row'',
         pyuvdata_row (clock 4) ''End measurement set history.''])"
  unfolding write_ms_history_def splitlines_mangled enumerate_list_5 Let_def
  by (simp add: header_in_mangled history_line_def decimal_real_time decimal_int_def
      decimal_nat_def digit_val_def append_line_def insert_pre_line_def enumerate_list_def
      eval_nat_numeral)

subsection \<open>The HISTORY reader\<close>

lemma str_in_self: "str_in sub sub"
  by (cases sub) simp_all

lemma str_in_append: "str_in sub (h @ sub)"
  by (induction h) (simp_all add: str_in_self)

lemma map_nth_filter_upt:
  "map (nth xs) (filter (\<lambda>i. P (xs ! i)) [0..<length xs]) = filter P xs"
proof (induction xs rule: rev_induct)
  case Nil
  show ?case by simp
next
  case (snoc x xs)
  have A: "filter (\<lambda>i. P ((xs @ [x]) ! i)) [0..<length xs] = filter (\<lambda>i. P (xs ! i)) [0..<length xs]"
    by (rule filter_cong) (auto simp: nth_append)
  have "map (nth (xs @ [x])) (filter (\<lambda>i. P (xs ! i)) [0..<length xs])
      = map (nth xs) (filter (\<lambda>i. P (xs ! i)) [0..<length xs])"
    by (rule map_cong) (auto simp: nth_append)
  with snoc have B: "map (nth (xs @ [x])) (filter (\<lambda>i. P (xs ! i)) [0..<length xs]) = filter P xs"
    by simp
  have "map (nth (xs @ [x])) (filter (\<lambda>i. P ((xs @ [x]) ! i)) [0..<length (xs @ [x])])
      = map (nth (xs @ [x])) (filter (\<lambda>i. P ((xs @ [x]) ! i)) [0..<length xs])
        @ (if P x then [x] else [])"
    by simp
  also have "\<dots> = filter P xs @ (if P x then [x] else [])"
    by (simp only: A B)
  finally show ?case by simp
qed

lemma foldl_place_pyuvdata_line:
  "\<exists>pre post.
     foldl (place_pyuvdata_line messages m) acc idxs =
       concat (map (\<lambda>i. messages ! i @ [CHR 0x0A]) pre) @ acc @
       concat (map (\<lambda>i. messages ! i @ [CHR 0x0A]) post) \<and>
     mset (pre @ post) = mset idxs"
proof (induction idxs arbitrary: acc)
  case Nil
  show ?case by (rule exI[of _ "[]"], rule exI[of _ "[]"]) simp
next
  case (Cons i idxs)
  let ?g = "\<lambda>i. messages ! i @ [CHR 0x0A]"
  from Cons[of "place_pyuvdata_line messages m acc i"] obtain pre post where
    eq: "foldl (place_pyuvdata_line messages m) (place_pyuvdata_line messages m acc i) idxs =
       concat (map ?g pre) @ place_pyuvdata_line messages m acc i @ concat (map ?g post)"
    and ms: "mset (pre @ post) = mset idxs" by blast
  show ?case
  proof (cases "int i < m")
    case True
    have "foldl (place_pyuvdata_line messages m) acc (i # idxs) =
          concat (map ?g (pre @ [i])) @ acc @ concat (map ?g post)"
      using eq True by (simp add: place_pyuvdata_line_def)
    moreover have "mset ((pre @ [i]) @ post) = mset (i # idxs)" using ms by simp
    ultimately show ?thesis by blast
  next
    case False
    have "foldl (place_pyuvdata_line messages m) acc (i # idxs) =
          concat (map ?g pre) @ acc @ concat (map ?g (i # post))"
      using eq False by (simp add: place_pyuvdata_line_def)
    moreover have "mset (pre @ (i # post)) = mset (i # idxs)" using ms by simp
    ultimately show ?thesis by blast
  qed
qed

lemma assemble_history_empty:
  "table_rows tb = [] \<Longrightarrow> assemble_history str_int str_float tb = ('''', False)"
  by (simp add: assemble_history_def)

lemma assemble_history_rows:
  assumes "table_rows tb \<noteq> []"
  shows "\<exists>pre post.
     fst (assemble_history str_int str_float tb) =
       concat (map message_line pre) @ ms_history_block str_int str_float tb @
       concat (map message_line post) \<and>
     mset (pre @ post) = mset (filter is_pyuvdata_row (table_rows tb)) \<and>
     snd (assemble_history str_int str_float tb) = (\<exists>r \<in> set (table_rows tb). is_pyuvdata_row r)"
proof -
  let ?rows = "table_rows tb"
  let ?n = "length ?rows"
  let ?py = "filter (\<lambda>idx. str_in ''pyuvdata'' (map APPLICATION ?rows ! idx)) [0..<?n]"
  let ?ms = "filter (\<lambda>idx. idx \<notin> set ?py) [0..<?n]"
  let ?m = "if ?ms = [] then - 1 else int (Min (set ?ms))"
  let ?block = "''Begin measurement set history'' @ [CHR 0x0A] @
            (if has_app_params tb then ''APP_PARAMS;'' else '''') @
            (if has_cli_command tb then ''CLI_COMMAND;'' else '''') @
            ''APPLICATION;MESSAGE;OBJECT_ID;OBSERVATION_ID;ORIGIN;PRIORITY;TIME'' @ [CHR 0x0A] @
            concat (map (\<lambda>idx. history_row_line str_int str_float tb (?rows ! idx)) ?ms) @
            ''End measurement set history.'' @ [CHR 0x0A]"
  have py: "?py = filter (\<lambda>i. is_pyuvdata_row (?rows ! i)) [0..<?n]"
    by (rule filter_cong) (auto simp: is_pyuvdata_row_def)
  have ms: "?ms = filter (\<lambda>i. \<not> is_pyuvdata_row (?rows ! i)) [0..<?n]"
    unfolding py by (rule filter_cong) auto
  have "map (\<lambda>idx. history_row_line str_int str_float tb (?rows ! idx)) ?ms
        = map (history_row_line str_int str_float tb) (map (nth ?rows) ?ms)"
    by simp
  also have "map (nth ?rows) ?ms = filter (\<lambda>r. \<not> is_pyuvdata_row r) ?rows"
    unfolding ms by (rule map_nth_filter_upt)
  finally have block: "?block = ms_history_block str_int str_float tb"
    by (simp only: ms_history_block_def)
  have asm: "assemble_history str_int str_float tb =
      (foldl (place_pyuvdata_line (map MESSAGE ?rows) ?m) ?block ?py, ?py \<noteq> [])"
    using assms by (simp add: assemble_history_def Let_def)
  from foldl_place_pyuvdata_line[of "map MESSAGE ?rows" ?m ?block ?py] obtain pre post where
    eq: "foldl (place_pyuvdata_line (map MESSAGE ?rows) ?m) ?block ?py =
       concat (map (\<lambda>i. map MESSAGE ?rows ! i @ [CHR 0x0A]) pre) @ ?block @
       concat (map (\<lambda>i. map MESSAGE ?rows ! i @ [CHR 0x0A]) post)"
    and mset: "mset (pre @ post) = mset ?py" by blast
  from mset have "set (pre @ post) = set ?py" by (rule mset_eq_setD)
  then have bound: "\<forall>i \<in> set pre \<union> set post. i < ?n" by auto
  have conv: "map (\<lambda>i. map MESSAGE ?rows ! i @ [CHR 0x0A]) l = map message_line (map (nth ?rows) l)"
    if "set l \<subseteq> set pre \<union> set post" for l
    using that bound by (auto simp: message_line_def)
  have "mset (map (nth ?rows) pre @ map (nth ?rows) post) = image_mset (nth ?rows) (mset (pre @ post))"
    by simp
  also have "\<dots> = mset (map (nth ?rows) ?py)" by (simp only: mset mset_map)
  also have "map (nth ?rows) ?py = filter is_pyuvdata_row ?rows"
    unfolding py by (rule map_nth_filter_upt)
  finally have m2: "mset (map (nth ?rows) pre @ map (nth ?rows) post) =
      mset (filter is_pyuvdata_row ?rows)" .
  have "(?py \<noteq> []) = (\<exists>i<?n. is_pyuvdata_row (?rows ! i))"
    unfolding py by (auto simp: filter_empty_conv)
  also have "\<dots> = (\<exists>r \<in> set ?rows. is_pyuvdata_row r)"
    by (metis in_set_conv_nth)
  finally have w: "(?py \<noteq> []) = (\<exists>r \<in> set ?rows. is_pyuvdata_row r)" .
  have c1: "map (\<lambda>i. map MESSAGE ?rows ! i @ [CHR 0x0A]) pre = map message_line (map (nth ?rows) pre)"
    by (rule conv) simp
  have c2: "map (\<lambda>i. map MESSAGE ?rows ! i @ [CHR 0x0A]) post = map message_line (map (nth ?rows) post)"
    by (rule conv) simp
  have "fst (assemble_history str_int str_float tb) =
        foldl (place_pyuvdata_line (map MESSAGE ?rows) ?m) ?block ?py"
    by (simp only: asm fst_conv)
  also have "\<dots> = concat (map (\<lambda>i. map MESSAGE ?rows ! i @ [CHR 0x0A]) pre) @ ?block @
       concat (map (\<lambda>i. map MESSAGE ?rows ! i @ [CHR 0x0A]) post)"
    by (rule eq)
  also have "\<dots> = concat (map message_line (map (nth ?rows) pre)) @
       ms_history_block str_int str_float tb @
       concat (map message_line (map (nth ?rows) post))"
    by (simp only: c1 c2 block)
  finally have "fst (assemble_history str_int str_float tb) =
       concat (map message_line (map (nth ?rows) pre)) @ ms_history_block str_int str_float tb @
       concat (map message_line (map (nth ?rows) post))" .
  moreover have "snd (assemble_history str_int str_float tb) =
      (\<exists>r \<in> set ?rows. is_pyuvdata_row r)"
    by (simp only: asm snd_conv w)
  ultimately show ?thesis using m2 by blast
qed

lemma upt_0_2: "[0..<2] = [0, 1::nat]"
  by (simp add: upt_rec)

text \<open>
  A table with a row of this software in front of a row of CASA: the message of the
  first goes in front of the block that holds the second.
\<close>

lemma assemble_history_two_rows:
  "assemble_history (\<lambda>i. ''0'') (\<lambda>t. ''4914651200.5'')
     \<lparr>has_app_params = True, has_cli_command = True,
      table_rows =
        [\<lparr>APP_PARAMS = '''', CLI_COMMAND = '''', APPLICATION = ''pyuvdata'',
          MESSAGE = ''made by hand'', OBJECT_ID = 0, OBSERVATION_ID = 0,
          ORIGIN = ''pyuvdata'', PRIORITY = ''INFO'', TIME = 4914651200.5\<rparr>,
         \<lparr>APP_PARAMS = ''p'', CLI_COMMAND = ''c'', APPLICATION = ''casa'',
          MESSAGE = ''imported'', OBJECT_ID = 0, OBSERVATION_ID = 0,
          ORIGIN = ''im'', PRIORITY = ''INFO'', TIME = 4914651200.5\<rparr>]\<rparr> =
   (text_of_lines
      [''made by hand'', ''Begin measurement set history'',
       ''APP_PARAMS;CLI_COMMAND;APPLICATION;MESSAGE;OBJECT_ID;OBSERVATION_ID;ORIGIN;PRIORITY;TIME'',
       ''p;c;casa;imported;0;0;im;INFO;4914651200.5'',
       ''End measurement set history.''], True)"
  by (simp add: assemble_history_def Let_def upt_0_2 place_pyuvdata_line_def
      history_row_line_def text_of_lines_def)

lemma assemble_history_no_rows:
  "assemble_history str_int str_float
     \<lparr>has_app_params = True, has_cli_command = True, table_rows = []\<rparr> = ('''', False)"
  by (simp add: assemble_history_def)

lemma version_not_in_nothing: "\<not> str_in ''pyuvdata version: 3.0.'' []"
  by simp

lemma version_not_in_two_rows:
  "\<not> str_in ''pyuvdata version: 3.0.''
      (text_of_lines
         [''made by hand'', ''Begin measurement set history'',
          ''APP_PARAMS;CLI_COMMAND;APPLICATION;MESSAGE;OBJECT_ID;OBSERVATION_ID;ORIGIN;PRIORITY;TIME'',
          ''p;c;casa;imported;0;0;im;INFO;4914651200.5'',
          ''End measurement set history.''])"
  by (simp add: text_of_lines_def)

text \<open>
  Claim C10.  For every HISTORY table and every version string, the reader returns the
  history assembled from the table when the version check holds of it, and that history
  with the version string appended otherwise; in both cases the returned history
  satisfies the version check.  The assembled history is empty for a table without rows;
  otherwise it is the block of the rows of other software, with the messages of all the
  rows of this software in front of it or behind it, and the second component of the
  result tells whether there is a row of this software.
\<close>

theorem read_ms_hist_has_version:
  "read_ms_hist str_int str_float (Some tb) version =
     Inr (if check_history_version (fst (assemble_history str_int str_float tb)) version
          then fst (assemble_history str_int str_float tb)
          else fst (assemble_history str_int str_float tb) @ version,
          snd (assemble_history str_int str_float tb)) \<and>
   check_history_version
     (if check_history_version (fst (assemble_history str_int str_float tb)) version
      then fst (assemble_history str_int str_float tb)
      else fst (assemble_history str_int str_float tb) @ version) version \<and>
   (table_rows tb = [] \<longrightarrow> assemble_history str_int str_float tb = ('''', False)) \<and>
   (table_rows tb \<noteq> [] \<longrightarrow>
      (\<exists>pre post.
         fst (assemble_history str_int str_float tb) =
           concat (map message_line pre) @ ms_history_block str_int str_float tb @
           concat (map message_line post) \<and>
         mset (pre @ post) = mset (filter is_pyuvdata_row (table_rows tb)) \<and>
         snd (assemble_history str_int str_float tb) =
           (\<exists>r \<in> set (table_rows tb). is_pyuvdata_row r)))"
proof (intro conjI impI)
  show "read_ms_hist str_int str_float (Some tb) version =
     Inr (if check_history_version (fst (assemble_history str_int str_float tb)) version
          then fst (assemble_history str_int str_float tb)
          else fst (assemble_history str_int str_float tb) @ version,
          snd (assemble_history str_int str_float tb))"
    by (simp add: read_ms_hist_def Let_def)
  show "check_history_version
     (if check_history_version (fst (assemble_history str_int str_float tb)) version
      then fst (assemble_history str_int str_float tb)
      else fst (assemble_history str_int str_float tb) @ version) version"
    by (simp add: check_history_version_def str_in_append)
  show "assemble_history str_int str_float tb = ('''', False)" if "table_rows tb = []"
    using that by (rule assemble_history_empty)
  show "\<exists>pre post.
         fst (assemble_history str_int str_float tb) =
           concat (map message_line pre) @ ms_history_block str_int str_float tb @
           concat (map message_line post) \<and>
         mset (pre @ post) = mset (filter is_pyuvdata_row (table_rows tb)) \<and>
         snd (assemble_history str_int str_float tb) =
           (\<exists>r \<in> set (table_rows tb). is_pyuvdata_row r)" if "table_rows tb \<noteq> []"
    using that by (rule assemble_history_rows)
qed

theorem read_ms_hist_has_version_witness:
  "table_rows \<lparr>has_app_params = True, has_cli_command = True, table_rows = []\<rparr> = [] \<and>
   read_ms_hist (\<lambda>i. ''0'') (\<lambda>t. ''4914651200.5'')
     (Some \<lparr>has_app_params = True, has_cli_command = True, table_rows = []\<rparr>)
     ''pyuvdata version: 3.0.'' = Inr (''pyuvdata version: 3.0.'', False) \<and>
   table_rows
     \<lparr>has_app_params = True, has_cli_command = True,
      table_rows =
        [\<lparr>APP_PARAMS = '''', CLI_COMMAND = '''', APPLICATION = ''pyuvdata'',
          MESSAGE = ''made by hand'', OBJECT_ID = 0, OBSERVATION_ID = 0,
          ORIGIN = ''pyuvdata'', PRIORITY = ''INFO'', TIME = 4914651200.5\<rparr>,
         \<lparr>APP_PARAMS = ''p'', CLI_COMMAND = ''c'', APPLICATION = ''casa'',
          MESSAGE = ''imported'', OBJECT_ID = 0, OBSERVATION_ID = 0,
          ORIGIN = ''im'', PRIORITY = ''INFO'', TIME = 4914651200.5\<rparr>]\<rparr> \<noteq> [] \<and>
   read_ms_hist (\<lambda>i. ''0'') (\<lambda>t. ''4914651200.5'')
     (Some \<lparr>has_app_params = True, has_cli_command = True,
            table_rows =
              [\<lparr>APP_PARAMS = '''', CLI_COMMAND = '''', APPLICATION = ''pyuvdata'',
                MESSAGE = ''made by hand'', OBJECT_ID = 0, OBSERVATION_ID = 0,
                ORIGIN = ''pyuvdata'', PRIORITY = ''INFO'', TIME = 4914651200.5\<rparr>,
               \<lparr>APP_PARAMS = ''p'', CLI_COMMAND = ''c'', APPLICATION = ''casa'',
                MESSAGE = ''imported'', OBJECT_ID = 0, OBSERVATION_ID = 0,
                ORIGIN = ''im'', PRIORITY = ''INFO'', TIME = 4914651200.5\<rparr>]\<rparr>)
     ''pyuvdata version: 3.0.'' =
   Inr (text_of_lines
          [''made by hand'', ''Begin measurement set history'',
           ''APP_PARAMS;CLI_COMMAND;APPLICATION;MESSAGE;OBJECT_ID;OBSERVATION_ID;ORIGIN;PRIORITY;TIME'',
           ''p;c;casa;imported;0;0;im;INFO;4914651200.5'',
           ''End measurement set history.''] @ ''pyuvdata version: 3.0.'', True) \<and>
   check_history_version
     (text_of_lines
        [''made by hand'', ''Begin measurement set history'',
         ''APP_PARAMS;CLI_COMMAND;APPLICATION;MESSAGE;OBJECT_ID;OBSERVATION_ID;ORIGIN;PRIORITY;TIME'',
         ''p;c;casa;imported;0;0;im;INFO;4914651200.5'',
         ''End measurement set history.''] @ ''pyuvdata version: 3.0.'')
     ''pyuvdata version: 3.0.''"
  using
    read_ms_hist_has_version [of "\<lambda>i. ''0''" "\<lambda>t. ''4914651200.5''"
      "\<lparr>has_app_params = True, has_cli_command = True, table_rows = []\<rparr>"
      "''pyuvdata version: 3.0.''"]
    read_ms_hist_has_version [of "\<lambda>i. ''0''" "\<lambda>t. ''4914651200.5''"
      "\<lparr>has_app_params = True, has_cli_command = True,
        table_rows =
          [\<lparr>APP_PARAMS = '''', CLI_COMMAND = '''', APPLICATION = ''pyuvdata'',
            MESSAGE = ''made by hand'', OBJECT_ID = 0, OBSERVATION_ID = 0,
            ORIGIN = ''pyuvdata'', PRIORITY = ''INFO'', TIME = 4914651200.5\<rparr>,
           \<lparr>APP_PARAMS = ''p'', CLI_COMMAND = ''c'', APPLICATION = ''casa'',
            MESSAGE = ''imported'', OBJECT_ID = 0, OBSERVATION_ID = 0,
            ORIGIN = ''im'', PRIORITY = ''INFO'', TIME = 4914651200.5\<rparr>]\<rparr>"
      "''pyuvdata version: 3.0.''"]
  unfolding assemble_history_two_rows assemble_history_no_rows
  by (simp add: check_history_version_def version_not_in_two_rows str_in_append
      version_not_in_nothing del: str_in.simps)

subsection \<open>The ANTENNA table\<close>

lemma upt_6: "[0..<6] = [0, 1, 2, 3, 4, 5::nat]"
  by (simp add: upt_rec)

lemma replicate_6: "replicate 6 x = [x, x, x, x, x, x]"
  by (simp add: eval_nat_numeral)

lemma frame_case:
  "str_upper ''itrs'' = ''ITRS''" "str_lower ''ITRF'' = ''itrf''"
  "str_upper ''mcmf'' = ''MCMF''" "str_lower ''MCMF'' = ''mcmf''"
  by (simp_all add: str_upper_def str_lower_def ascii_upper_def ascii_lower_def)

text \<open>The table that the writer makes of the antennas 0, 2 and 5.\<close>

lemma write_ms_antenna_025:
  "write_ms_antenna [0, 2, 5] [n0, n2, n5] [p0, p2, p5] (Some [d0, d2, d5]) t frame =
    Inr \<lparr>antenna_rows =
      [\<lparr>NAME = n0, STATION = n0, POSITION = vec3_add p0 t, DISH_DIAMETER = d0\<rparr>,
       \<lparr>NAME = '''', STATION = '''', POSITION = (0, 0, 0),
         DISH_DIAMETER = (if d0 = d2 \<and> d2 = d5 then d0 else 0)\<rparr>,
       \<lparr>NAME = n2, STATION = n2, POSITION = vec3_add p2 t, DISH_DIAMETER = d2\<rparr>,
       \<lparr>NAME = '''', STATION = '''', POSITION = (0, 0, 0),
         DISH_DIAMETER = (if d0 = d2 \<and> d2 = d5 then d0 else 0)\<rparr>,
       \<lparr>NAME = '''', STATION = '''', POSITION = (0, 0, 0),
         DISH_DIAMETER = (if d0 = d2 \<and> d2 = d5 then d0 else 0)\<rparr>,
       \<lparr>NAME = n5, STATION = n5, POSITION = vec3_add p5 t, DISH_DIAMETER = d5\<rparr>],
      position_ref = (if str_upper frame = ''ITRS'' then ''ITRF'' else str_upper frame)\<rparr>"
  by (auto simp add: write_ms_antenna_def Let_def upt_6 replicate_6)

text \<open>
  Claim C5, as stated, fails when an antenna stands where its written position is the
  zero vector: with the telescope at \<open>(10, 20, 30)\<close> and antenna 0 at
  \<open>(-10, -20, -30)\<close> relative to it, the row of antenna 0 is dropped with the padding
  rows, and the antennas 2 and 5 alone are read back.
\<close>

theorem antenna_round_trip_counterexample:
  "antenna_round_trip [0, 2, 5] [''a0'', ''a2'', ''a5'']
      [(- 10, - 20, - 30), (1, 0, 0), (0, 1, 0)] (Some [14, 14, 14]) (10, 20, 30) ''itrs'' True =
    Inr \<lparr>antenna_positions_out = [(11, 20, 30), (10, 21, 30)],
          antenna_numbers_out = [2, 5],
          telescope_frame_out = ''itrs'',
          antenna_names_out = [''a2'', ''a5''],
          station_names_out = [''a2'', ''a5''],
          antenna_diameters_out = [14, 14]\<rparr>"
  unfolding antenna_round_trip_def write_ms_antenna_025
  by (simp add: read_ms_ant_def Let_def upt_6 frame_case vec3_any_def vec3_add_def)

text \<open>
  Claim C5, amended.  Writing the antennas numbered 0, 2 and 5, with any names,
  positions and diameters, for a telescope frame \<open>itrs\<close> or \<open>mcmf\<close>, and reading
  the table back (with the check of the frame) gives exactly the numbers 0, 2 and 5
  with their names (also as station names), their diameters, the frame, and their
  positions as written, which is relative position plus telescope location, provided
  none of the three written positions is the zero vector.  The padding rows 1, 3 and 4
  are dropped.
\<close>

theorem antenna_round_trip_025:
  assumes "vec3_any (vec3_add p0 t)" "vec3_any (vec3_add p2 t)" "vec3_any (vec3_add p5 t)"
    and "frame \<in> {''itrs'', ''mcmf''}"
  shows "antenna_round_trip [0, 2, 5] [n0, n2, n5] [p0, p2, p5] (Some [d0, d2, d5]) t frame True =
    Inr \<lparr>antenna_positions_out = [vec3_add p0 t, vec3_add p2 t, vec3_add p5 t],
          antenna_numbers_out = [0, 2, 5],
          telescope_frame_out = frame,
          antenna_names_out = [n0, n2, n5],
          station_names_out = [n0, n2, n5],
          antenna_diameters_out = [d0, d2, d5]\<rparr>"
proof -
  have frame: "str_lower (if str_upper frame = ''ITRS'' then ''ITRF'' else str_upper frame)
       = (if frame = ''itrs'' then ''itrf'' else ''mcmf'')"
    using assms(4) by (auto simp: frame_case)
  show ?thesis
    unfolding antenna_round_trip_def write_ms_antenna_025
    using assms
    by (auto simp add: read_ms_ant_def Let_def upt_6 frame vec3_any_def)
qed

theorem antenna_round_trip_025_witness:
  "vec3_any (vec3_add (1, 2, 3) (10, 20, 30)) \<and> vec3_any (vec3_add (4, 5, 6) (10, 20, 30)) \<and>
   vec3_any (vec3_add (7, 8, 9) (10, 20, 30)) \<and> ''itrs'' \<in> {''itrs'', ''mcmf''} \<and>
   antenna_round_trip [0, 2, 5] [''a0'', ''a2'', ''a5''] [(1, 2, 3), (4, 5, 6), (7, 8, 9)]
      (Some [14, 14, 12]) (10, 20, 30) ''itrs'' True =
    Inr \<lparr>antenna_positions_out = [(11, 22, 33), (14, 25, 36), (17, 28, 39)],
          antenna_numbers_out = [0, 2, 5],
          telescope_frame_out = ''itrs'',
          antenna_names_out = [''a0'', ''a2'', ''a5''],
          station_names_out = [''a0'', ''a2'', ''a5''],
          antenna_diameters_out = [14, 14, 12]\<rparr>"
  using antenna_round_trip_025 [of "(1, 2, 3)" "(10, 20, 30)" "(4, 5, 6)" "(7, 8, 9)" "''itrs''"
      "''a0''" "''a2''" "''a5''" 14 14 12]
  by (simp add: vec3_any_def vec3_add_def)

subsection \<open>The selection of frequencies\<close>

lemma select_finish_sorted:
  "select_finish fa ft cw cwt sid w ssa fi = Inr (ws, Some inds) \<Longrightarrow> sorted_wrt (<) inds"
  by (auto simp: select_finish_def sorted_set_def strict_sorted_iff
      split: option.splits if_splits sum.splits prod.splits)

text \<open>
  Claim C9.  Whenever the selection returns channel indices, these are strictly ascending,
  hence free of duplicates, whatever was requested and in whatever order.
\<close>

theorem select_freq_helper_sorted:
  assumes "select_freq_helper jstr2num polstr2num spacing_ok a =
             Inr (ws, Some freq_inds, spw_inds, sels)"
  shows "sorted_wrt (<) freq_inds \<and> distinct freq_inds"
proof -
  from assms obtain fa ft cw cwt sid w ssa fi ws' where
    "select_finish fa ft cw cwt sid w ssa fi = Inr (ws', Some freq_inds)"
    by (auto simp: select_freq_helper_def split: sum.splits prod.splits)
  then have "sorted_wrt (<) freq_inds" by (rule select_finish_sorted)
  then show ?thesis by (simp add: strict_sorted_iff)
qed

text \<open>
  The channels 5, 2 and 5 again of a single window of ten channels: the selection is
  \<open>[2, 5]\<close>, with the warning that the two channels are not contiguous.
\<close>

theorem select_freq_helper_sorted_witness:
  "select_freq_helper (\<lambda>s. Inr 0) (\<lambda>s. Inr 0) (\<lambda>xs. True)
     \<lparr>frequencies = None, freq_chans = Some [5, 2, 5],
      obj_freq_array = Some [100, 101, 102, 103, 104, 105, 106, 107, 108, 109],
      freq_tols = (0, 1 / 1000), obj_channel_width = Some [1, 1, 1, 1, 1, 1, 1, 1, 1, 1],
      channel_width_tols = (0, 1 / 1000), spws = None, obj_spw_array = Some [0],
      obj_spw_id_array = Some [0, 0, 0, 0, 0, 0, 0, 0, 0, 0],
      polarizations = None, obj_flex_spw_pol_array = None, jones = None,
      obj_flex_jones_array = None, warn_freq_spacing = True, invert = False\<rparr>
   = Inr ([''Selected frequencies are not contiguous''], Some [2, 5], Some [0], [''frequencies''])
   \<and> sorted_wrt (<) [2, 5 :: int] \<and> distinct [2, 5 :: int]"
proof -
  have run: "select_freq_helper (\<lambda>s. Inr 0) (\<lambda>s. Inr 0) (\<lambda>xs. True)
     \<lparr>frequencies = None, freq_chans = Some [5, 2, 5],
      obj_freq_array = Some [100, 101, 102, 103, 104, 105, 106, 107, 108, 109],
      freq_tols = (0, 1 / 1000), obj_channel_width = Some [1, 1, 1, 1, 1, 1, 1, 1, 1, 1],
      channel_width_tols = (0, 1 / 1000), spws = None, obj_spw_array = Some [0],
      obj_spw_id_array = Some [0, 0, 0, 0, 0, 0, 0, 0, 0, 0],
      polarizations = None, obj_flex_spw_pol_array = None, jones = None,
      obj_flex_jones_array = None, warn_freq_spacing = True, invert = False\<rparr>
   = Inr ([''Selected frequencies are not contiguous''], Some [2, 5], Some [0], [''frequencies''])"
    by (simp add: select_freq_helper_def select_by_frequencies_def select_by_freq_chans_def
        select_by_spws_def select_by_pols_def select_spw_channels_def select_finish_def
        take_opt_def np_take_def np_unique_def np_isin_def np_nonzero_def np_intersect1d_def
        sorted_set_def spacing_defs np_all_eq_def n_breaks_def upt_rec)
  from select_freq_helper_sorted [OF run] run show ?thesis by simp
qed

subsection \<open>The sort order\<close>





























lemmas sort_defs = sort_freq_helper_def sort_freq_index_def spw_order_indices_def
  apply_spw_order_def channel_order_block_def stable_argsort_int_def stable_argsort_float_def
  np_median_def np_take_def index_mask_def strictly_ascending_def valid_index_array_def



lemma upt_4: "[0..<4] = [0, 1, 2, 3::nat]"
  by (simp add: upt_rec)







text \<open>
  Where keys are equal, the order that \<^verbatim>\<open>np.argsort\<close> returns decides the result.
  Both orders below meet its specification for the frequencies \<open>[2, 2, 1, 1]\<close> of one
  window: with the first the channels sorted by descending frequency are in the order
  they have, and the helper returns \<^verbatim>\<open>None\<close>; with the second it returns an order.
\<close>

lemma sort_ties_orders:
  "is_argsort nan_le [Some 2, Some 2, Some 1, Some 1] [3, 2, 1, 0]"
  "is_argsort nan_le [Some 2, Some 2, Some 1, Some 1] [2, 3, 0, 1]"
proof -
  have len: "length [Some 2, Some 2, Some 1, Some (1::real)] = 4"
    by simp
  have "mset (rev [0, 1, 2, 3::nat]) = mset [0, 1, 2, 3]"
    by (rule mset_rev)
  then have a: "mset [3, 2, 1, 0::nat] = mset [0..<4]"
    by (simp only: upt_4 rev.simps append.simps)
  have "mset ([2, 3] @ [0, 1::nat]) = mset ([0, 1] @ [2, 3])"
    by (simp only: mset_append union_commute)
  then have b: "mset [2, 3, 0, 1::nat] = mset [0..<4]"
    by (simp only: upt_4 append.simps)
  show "is_argsort nan_le [Some 2, Some 2, Some 1, Some 1] [3, 2, 1, 0]"
    unfolding is_argsort_def len a by (simp add: nan_le_def)
  show "is_argsort nan_le [Some 2, Some 2, Some 1, Some 1] [2, 3, 0, 1]"
    unfolding is_argsort_def len b by (simp add: nan_le_def)
qed

lemma sort_ties_none:
  assumes "af [Some 2, Some 2, Some 1, Some 1] = [3, 2, 1, 0]"
  shows "sort_freq_helper ai af 4 [2, 2, 1, 1] 1 [0] [0, 0, 0, 0]
           None (Some (OrderStr ''-freq'')) None = Inr ([], None)"
  using assms by (simp add: sort_defs upt_4)

lemma sort_ties_some:
  assumes "af [Some 2, Some 2, Some 1, Some 1] = [2, 3, 0, 1]"
  shows "sort_freq_helper ai af 4 [2, 2, 1, 1] 1 [0] [0, 0, 0, 0]
           None (Some (OrderStr ''-freq'')) None = Inr ([], Some [1, 0, 3, 2])"
  using assms by (simp add: sort_defs upt_4)






end
